theory Spec2Isabelle
  imports Main
begin

section \<open>Values and failures\<close>

text \<open>
  The wrapper never computes with floating-point numbers: samples and timestamps are
  produced by the native reader and handed on unchanged. A double is therefore an opaque
  payload, kept as a mantissa and an exponent.
\<close>

datatype pyfloat = PyFloat int int

text \<open>An event value as the binding delivers it (text, byte, word or dword data).\<close>

datatype pyval = PyInt int | PyFlt pyfloat | PyStr string

text \<open>
  An exception raised by code outside this repository (the Neuroshare binding, numpy, h5py,
  a progress callback). \<open>PyException\<close> is an instance of \<open>Exception\<close>;
  \<open>PyBaseException\<close> is one that is not (\<open>KeyboardInterrupt\<close>, \<open>SystemExit\<close>), which
  \<open>except Exception\<close> lets through and a bare \<open>except:\<close> catches.
\<close>

datatype foreign = PyException string | PyBaseException string

text \<open>
  The exceptions the module raises itself, named by the specification's taxonomy:
  \<^item> \<open>NotFound f\<close>: \<open>FileNotFoundError("MCD file not found: f")\<close>;
  \<^item> \<open>OpenError e\<close>: \<open>RuntimeError("Failed to open MCD file: e")\<close>;
  \<^item> \<open>NotOpen\<close>: \<open>RuntimeError("File is not open")\<close>;
  \<^item> \<open>InvalidArgument s\<close>: \<open>ValueError("Invalid entity type: s")\<close>;
  \<^item> \<open>TypeMismatch id k\<close>: \<open>ValueError("Entity id is not a(n) k entity")\<close>;
  \<^item> \<open>DependencyMissing\<close>: \<open>ImportError("h5py is required for conversion. ...")\<close>;
  \<^item> \<open>Foreign x\<close>: an exception of a collaborator, propagated unchanged.
\<close>

datatype error =
    NotFound string
  | OpenError error
  | NotOpen
  | InvalidArgument string
  | TypeMismatch int string
  | DependencyMissing
  | Foreign foreign

fun is_Exception :: "error \<Rightarrow> bool" where
  "is_Exception (Foreign (PyBaseException m)) = False"
| "is_Exception e = True"

section \<open>The native reader binding\<close>

text \<open>
  An entity object of the binding: its attributes, and \<open>get_data\<close>, whose signature
  depends on the entity's class (analog: index and count; event and segment: index;
  neural: index and count). Each read either raises or returns. Counts are the
  unsigned 32-bit counts of the Neuroshare structures.
\<close>

record native_entity =
  label :: string
  entity_type :: int
  item_count :: nat
  entity_metadata_raw :: "(string \<times> pyval) list"
  sample_rate :: pyfloat
  min_value :: pyfloat
  max_value :: pyfloat
  units :: string
  resolution :: pyfloat
  location_x :: pyfloat
  location_y :: pyfloat
  location_z :: pyfloat
  source_count :: nat
  max_sample_count :: nat
  event_type :: int
  analog_get_data :: "int \<Rightarrow> int \<Rightarrow> foreign + (pyfloat list \<times> pyfloat list \<times> nat)"
  event_get_data :: "int \<Rightarrow> foreign + (pyfloat \<times> pyval)"
  segment_get_data :: "int \<Rightarrow> foreign + (pyfloat list list \<times> pyfloat \<times> nat \<times> int)"
  neural_get_data :: "int \<Rightarrow> int \<Rightarrow> foreign + pyfloat list"

text \<open>The binding's file object (\<open>ns.File\<close>).\<close>

record native_file =
  file_type :: string
  entity_count :: nat
  time_stamp_resolution :: pyfloat
  time_span :: pyfloat
  app_name :: string
  comment :: string
  metadata_raw :: "string \<Rightarrow> int option"
  get_entity :: "int \<Rightarrow> foreign + native_entity"

section \<open>Effects\<close>

text \<open>
  A numpy array made of a list of Python scalars: its element type, and the values it was
  made of. The element at \<open>k\<close> is the value at \<open>k\<close> converted to the element type.
\<close>

datatype dtype = Int64 | Float64 | Unicode

datatype ndarray = NdArray dtype "pyval list"

text \<open>What is written into the HDF5 container: the payload of a dataset or attribute.\<close>

datatype h5_payload =
    Floats "pyfloat list"
  | Matrix "pyfloat list list"
  | Values ndarray
  | FloatAttr pyfloat
  | IntAttr int
  | StrAttr string

text \<open>
  A write to the container; a group is addressed by its path from the root.
\<close>

datatype h5_op =
    H5File string
  | CreateGroup "string list" string
  | CreateDataset "string list" string h5_payload
  | SetAttr "string list" string h5_payload

text \<open>
  The calls that leave the module, in the order they are made: file-system probes,
  calls into the binding, successful container writes, progress callbacks and the
  warning printed for an entity that failed.
\<close>

datatype event =
    PathExists string
  | SetEnvPath string
  | NsLibrary string string
  | NsFile string
  | GetEntity int
  | AnalogGetData int int int
  | EventGetData int int
  | SegmentGetData int int
  | NeuralGetData int int int
  | H5 h5_op
  | Progress nat nat string
  | Warning string error

text \<open>
  Everything the module receives from its surroundings: the file system, the platform,
  the path functions of the standard library, the binding's constructors, numpy's array
  conversion, whether h5py can be imported, and whether a container write raises (which
  may depend on everything done so far, as for a group name that already exists).
  \<open>unicode_lower\<close> is \<open>str.lower\<close> on a string that is not pure ASCII, where it
  follows the Unicode tables. \<open>print_raises\<close> tells whether printing the warning for
  an entity raises (an encoding error on the label, a closed pipe).
\<close>

record env =
  path_exists :: "string \<Rightarrow> bool"
  platform :: string
  script_dir :: string
  cwd :: string
  path_join :: "string \<Rightarrow> string \<Rightarrow> string"
  dirname :: "string \<Rightarrow> string"
  basename :: "string \<Rightarrow> string"
  ns_Library :: "string \<Rightarrow> string \<Rightarrow> foreign option"
  ns_File :: "string \<Rightarrow> foreign + native_file"
  np_array :: "pyval list \<Rightarrow> foreign + ndarray"
  h5py_available :: bool
  h5_raises :: "event list \<Rightarrow> h5_op \<Rightarrow> foreign option"
  unicode_lower :: "string \<Rightarrow> string"
  print_raises :: "event list \<Rightarrow> string \<Rightarrow> error \<Rightarrow> foreign option"

text \<open>
  A computation of the file accessor: the calls it made, and the exception it raised
  (\<open>Inl\<close>) or the value it returned (\<open>Inr\<close>).
\<close>

type_synonym 'a io = "event list \<times> (error + 'a)"

definition io_return :: "'a \<Rightarrow> 'a io" where
  "io_return x = ([], Inr x)"

definition io_raise :: "error \<Rightarrow> 'a io" where
  "io_raise e = ([], Inl e)"

definition io_bind :: "'a io \<Rightarrow> ('a \<Rightarrow> 'b io) \<Rightarrow> 'b io" where
  "io_bind m f =
     (case m of
        (t, Inl e) \<Rightarrow> (t, Inl e)
      | (t, Inr x) \<Rightarrow> (case f x of (t', r) \<Rightarrow> (t @ t', r)))"

text \<open>A call to a collaborator: it is recorded, and its exception propagates.\<close>

definition extern :: "event \<Rightarrow> foreign + 'a \<Rightarrow> 'a io" where
  "extern ev r = ([ev], case r of Inl x \<Rightarrow> Inl (Foreign x) | Inr v \<Rightarrow> Inr v)"

definition exists_io :: "env \<Rightarrow> string \<Rightarrow> bool io" where
  "exists_io E p = ([PathExists p], Inr (path_exists E p))"

section \<open>MCDFile\<close>

definition ENTITY_UNKNOWN :: int where "ENTITY_UNKNOWN = 0"
definition ENTITY_EVENT :: int where "ENTITY_EVENT = 1"
definition ENTITY_ANALOG :: int where "ENTITY_ANALOG = 2"
definition ENTITY_SEGMENT :: int where "ENTITY_SEGMENT = 3"
definition ENTITY_NEURAL :: int where "ENTITY_NEURAL = 4"

definition ENTITY_TYPE_NAMES :: "(int \<times> string) list" where
  "ENTITY_TYPE_NAMES =
     [(0, ''unknown''), (1, ''event''), (2, ''analog''), (3, ''segment''), (4, ''neural'')]"

text \<open>\<open>d.get(k, default)\<close> on a dictionary given by its items.\<close>

definition dict_get :: "('k \<times> 'v) list \<Rightarrow> 'k \<Rightarrow> 'v \<Rightarrow> 'v" where
  "dict_get d k dflt = (case map_of d k of Some v \<Rightarrow> v | None \<Rightarrow> dflt)"

text \<open>
  The object's attributes. \<open>lib_obj\<close> and \<open>file_obj\<close> are \<open>_lib\<close> and \<open>_file\<close>; a loaded
  library is kept as the name and directory it was loaded from.
\<close>

record MCDFile =
  filename :: string
  library_path :: string
  lib_obj :: "(string \<times> string) option"
  file_obj :: "native_file option"

subsection \<open>Opening\<close>

definition lib_names :: "string \<Rightarrow> string list" where
  "lib_names plat =
     (if plat = ''win32'' then [''nsMCDLibrary64.dll'', ''nsMCDLibrary.dll'']
      else if plat = ''darwin'' then [''nsMCDLibrary.dylib'']
      else [''nsMCDLibrary.so''])"

definition search_paths :: "env \<Rightarrow> string list" where
  "search_paths E =
     [path_join E (path_join E (script_dir E) ''Matlab-Import-Filter'') ''Matlab_Interface'',
      cwd E]"

text \<open>The inner loop of the search: the first library file that exists in a directory.\<close>

fun find_in_dir :: "env \<Rightarrow> string \<Rightarrow> string list \<Rightarrow> (string option) io" where
  "find_in_dir E d [] = io_return None"
| "find_in_dir E d (n # ns) =
     io_bind (exists_io E (path_join E d n)) (\<lambda>found.
       if found then io_return (Some (path_join E d n)) else find_in_dir E d ns)"

text \<open>The outer loop: directories that do not exist are skipped.\<close>

fun find_in_paths :: "env \<Rightarrow> string list \<Rightarrow> string list \<Rightarrow> (string option) io" where
  "find_in_paths E [] names = io_return None"
| "find_in_paths E (d # ds) names =
     io_bind (exists_io E d) (\<lambda>present.
       if \<not> present then find_in_paths E ds names
       else io_bind (find_in_dir E d names) (\<lambda>r.
         case r of Some f \<Rightarrow> io_return (Some f) | None \<Rightarrow> find_in_paths E ds names))"

text \<open>
  \<open>_find_library_path\<close>: a caller's path that is given, non-empty and exists is used;
  otherwise the search; otherwise the first candidate, left to the binding.
\<close>

definition find_library_path :: "env \<Rightarrow> string option \<Rightarrow> string io" where
  "find_library_path E lp =
     io_bind (case lp of
                None \<Rightarrow> io_return None
              | Some p \<Rightarrow> if p = [] then io_return None
                          else io_bind (exists_io E p) (\<lambda>ok.
                                 io_return (if ok then Some p else None))) (\<lambda>given.
       case given of
         Some p \<Rightarrow> io_return p
       | None \<Rightarrow>
           io_bind (find_in_paths E (search_paths E) (lib_names (platform E))) (\<lambda>r.
             case r of
               Some f \<Rightarrow> io_return f
             | None \<Rightarrow>
                 (case (search_paths E, lib_names (platform E)) of
                    (d # _, n # _) \<Rightarrow> io_return (path_join E d n)
                  | _ \<Rightarrow> io_return [])))"

text \<open>
  \<open>_open_file\<close>. A library path that exists is loaded first; when loading raises anything
  at all the file is opened without it. Whatever \<open>Exception\<close> escapes becomes the
  \<open>RuntimeError\<close> of a failed open.
\<close>

definition open_body :: "env \<Rightarrow> string \<Rightarrow> string \<Rightarrow> ((string \<times> string) option \<times> native_file) io" where
  "open_body E fname lp =
     io_bind (if lp = [] then io_return False else exists_io E lp) (\<lambda>ok.
       if ok then
         io_bind (if platform E = ''win32'' \<and> dirname E lp \<noteq> []
                  then ([SetEnvPath (dirname E lp)], Inr ()) else io_return ()) (\<lambda>_.
           case ns_Library E (basename E lp) (dirname E lp) of
             Some x \<Rightarrow>
               io_bind ([NsLibrary (basename E lp) (dirname E lp)], Inr ()) (\<lambda>_.
                 io_bind (extern (NsFile fname) (ns_File E fname)) (\<lambda>f.
                   io_return (None, f)))
           | None \<Rightarrow>
               io_bind ([NsLibrary (basename E lp) (dirname E lp)], Inr ()) (\<lambda>_.
                 io_bind (extern (NsFile fname) (ns_File E fname)) (\<lambda>f.
                   io_return (Some (basename E lp, dirname E lp), f))))
       else
         io_bind (extern (NsFile fname) (ns_File E fname)) (\<lambda>f. io_return (None, f)))"

definition open_file :: "env \<Rightarrow> string \<Rightarrow> string \<Rightarrow> ((string \<times> string) option \<times> native_file) io" where
  "open_file E fname lp =
     (case open_body E fname lp of
        (t, Inl e) \<Rightarrow> (t, Inl (if is_Exception e then OpenError e else e))
      | (t, Inr r) \<Rightarrow> (t, Inr r))"

text \<open>\<open>MCDFile.__init__\<close>.\<close>

definition MCDFile_init :: "env \<Rightarrow> string \<Rightarrow> string option \<Rightarrow> MCDFile io" where
  "MCDFile_init E fname lp =
     io_bind (exists_io E fname) (\<lambda>present.
       if \<not> present then io_raise (NotFound fname)
       else io_bind (find_library_path E lp) (\<lambda>p.
         io_bind (open_file E fname p) (\<lambda>(l, f).
           io_return \<lparr>filename = fname, library_path = p, lib_obj = l, file_obj = Some f\<rparr>)))"

definition close :: "MCDFile \<Rightarrow> MCDFile" where
  "close h = (if file_obj h \<noteq> None then h\<lparr>file_obj := None\<rparr> else h)\<lparr>lib_obj := None\<rparr>"

subsection \<open>Results\<close>

text \<open>
  The dictionaries the methods return, one record per shape, a field per key.
\<close>

record date_info =
  d_year :: int
  d_month :: int
  d_day :: int
  d_hour :: int
  d_minute :: int
  d_second :: int

record file_info =
  fi_file_type :: string
  fi_entity_count :: nat
  fi_time_stamp_resolution :: pyfloat
  fi_time_span :: pyfloat
  fi_app_name :: string
  fi_comment :: string
  fi_date :: date_info

record entity_summary =
  es_id :: int
  es_label :: string
  es_type :: int
  es_type_name :: string
  es_item_count :: nat

text \<open>
  \<open>get_entity_info\<close> adds keys by \<open>info.update\<close> for analog and segment entities only:
  the two optional groups of fields.
\<close>

record analog_fields =
  af_sample_rate :: pyfloat
  af_min_value :: pyfloat
  af_max_value :: pyfloat
  af_units :: string
  af_resolution :: pyfloat

record segment_fields =
  sf_source_count :: nat
  sf_max_sample_count :: nat
  sf_sample_rate :: pyfloat

record entity_detail =
  ed_id :: int
  ed_label :: string
  ed_type :: int
  ed_type_name :: string
  ed_item_count :: nat
  ed_metadata_raw :: "(string \<times> pyval) list"
  ed_analog :: "analog_fields option"
  ed_segment :: "segment_fields option"

record analog_metadata =
  am_min_value :: pyfloat
  am_max_value :: pyfloat
  am_resolution :: pyfloat
  am_location_x :: pyfloat
  am_location_y :: pyfloat
  am_location_z :: pyfloat

record analog_record =
  ar_data :: "pyfloat list"
  ar_timestamps :: "pyfloat list"
  ar_continuous_count :: nat
  ar_sample_rate :: pyfloat
  ar_units :: string
  ar_label :: string
  ar_metadata :: analog_metadata

text \<open>
  The \<open>values\<close> of an event record: the numpy array when \<open>np.array\<close> returned one,
  the Python list otherwise.
\<close>

datatype event_values = AsArray ndarray | AsList "pyval list"

record event_record =
  er_timestamps :: "pyfloat list"
  er_values :: event_values
  er_event_type :: int
  er_label :: string

record segment_record =
  sr_data :: "pyfloat list list"
  sr_timestamp :: pyfloat
  sr_sample_count :: nat
  sr_unit_id :: int
  sr_source_count :: nat
  sr_sample_rate :: pyfloat
  sr_label :: string

record neural_record =
  nr_timestamps :: "pyfloat list"
  nr_label :: string

subsection \<open>Metadata and listing\<close>

definition info :: "MCDFile \<Rightarrow> file_info io" where
  "info h =
     (case file_obj h of
        None \<Rightarrow> io_raise NotOpen
      | Some f \<Rightarrow>
          io_return
            \<lparr>fi_file_type = file_type f,
             fi_entity_count = entity_count f,
             fi_time_stamp_resolution = time_stamp_resolution f,
             fi_time_span = time_span f,
             fi_app_name = app_name f,
             fi_comment = comment f,
             fi_date =
               \<lparr>d_year = (case metadata_raw f ''Time_Year'' of Some v \<Rightarrow> v | None \<Rightarrow> 0),
                d_month = (case metadata_raw f ''Time_Month'' of Some v \<Rightarrow> v | None \<Rightarrow> 0),
                d_day = (case metadata_raw f ''Time_Day'' of Some v \<Rightarrow> v | None \<Rightarrow> 0),
                d_hour = (case metadata_raw f ''Time_Hour'' of Some v \<Rightarrow> v | None \<Rightarrow> 0),
                d_minute = (case metadata_raw f ''Time_Min'' of Some v \<Rightarrow> v | None \<Rightarrow> 0),
                d_second = (case metadata_raw f ''Time_Sec'' of Some v \<Rightarrow> v | None \<Rightarrow> 0)\<rparr>\<rparr>)"

definition summary :: "nat \<Rightarrow> native_entity \<Rightarrow> entity_summary" where
  "summary i e =
     \<lparr>es_id = int i,
      es_label = label e,
      es_type = entity_type e,
      es_type_name = dict_get ENTITY_TYPE_NAMES (entity_type e) ''unknown'',
      es_item_count = item_count e\<rparr>"

text \<open>
  The loop of \<open>list_entities\<close>: \<open>entities\<close> is the list built so far, the second
  argument the ids of \<open>range(entity_count)\<close> still to visit.
\<close>

fun list_entities_loop ::
  "native_file \<Rightarrow> nat list \<Rightarrow> entity_summary list \<Rightarrow> (entity_summary list) io" where
  "list_entities_loop f [] entities = io_return entities"
| "list_entities_loop f (i # rest) entities =
     io_bind (extern (GetEntity (int i)) (get_entity f (int i))) (\<lambda>e.
       list_entities_loop f rest (entities @ [summary i e]))"

definition list_entities :: "MCDFile \<Rightarrow> (entity_summary list) io" where
  "list_entities h =
     (case file_obj h of
        None \<Rightarrow> io_raise NotOpen
      | Some f \<Rightarrow> list_entities_loop f [0..<entity_count f] [])"

text \<open>
  \<open>str.lower\<close>. A string is kept as its bytes in UTF-8. On a string of ASCII
  characters only, \<open>str.lower\<close> replaces the letters \<open>A\<close> to \<open>Z\<close> and nothing else;
  on any other string it is Unicode's lower-casing, which the surroundings supply.
\<close>

definition lower_char :: "char \<Rightarrow> char" where
  "lower_char c =
     (if (65::nat) \<le> of_char c \<and> (of_char c :: nat) \<le> 90
      then char_of ((of_char c :: nat) + 32) else c)"

definition lower :: "env \<Rightarrow> string \<Rightarrow> string" where
  "lower E s =
     (if \<forall>c\<in>set s. (of_char c :: nat) < 128 then map lower_char s else unicode_lower E s)"

text \<open>
  \<open>{v: k for k, v in ENTITY_TYPE_NAMES.items()}\<close>: the items are entered in order, a
  later one replacing an earlier one with the same name.
\<close>

definition type_map :: "string \<Rightarrow> int option" where
  "type_map = fold (\<lambda>(k, v) m. m(v \<mapsto> k)) ENTITY_TYPE_NAMES Map.empty"

text \<open>The argument of \<open>get_entities_by_type\<close>: a \<open>str\<close> or a number.\<close>

datatype type_arg = TypeName string | TypeCode int

definition get_entities_by_type ::
  "env \<Rightarrow> MCDFile \<Rightarrow> type_arg \<Rightarrow> (entity_summary list) io" where
  "get_entities_by_type E h a =
     io_bind (case a of
                TypeName s \<Rightarrow>
                  (case type_map (lower E s) of
                     None \<Rightarrow> io_raise (InvalidArgument (lower E s))
                   | Some k \<Rightarrow> io_return k)
              | TypeCode n \<Rightarrow> io_return n) (\<lambda>type_num.
       io_bind (list_entities h) (\<lambda>all_entities.
         io_return (filter (\<lambda>e. es_type e = type_num) all_entities)))"

definition get_entity_info :: "MCDFile \<Rightarrow> int \<Rightarrow> entity_detail io" where
  "get_entity_info h entity_id =
     (case file_obj h of
        None \<Rightarrow> io_raise NotOpen
      | Some f \<Rightarrow>
          io_bind (extern (GetEntity entity_id) (get_entity f entity_id)) (\<lambda>e.
            io_return
              \<lparr>ed_id = entity_id,
               ed_label = label e,
               ed_type = entity_type e,
               ed_type_name = dict_get ENTITY_TYPE_NAMES (entity_type e) ''unknown'',
               ed_item_count = item_count e,
               ed_metadata_raw = entity_metadata_raw e,
               ed_analog =
                 (if entity_type e = ENTITY_ANALOG
                  then Some \<lparr>af_sample_rate = sample_rate e, af_min_value = min_value e,
                             af_max_value = max_value e, af_units = units e,
                             af_resolution = resolution e\<rparr>
                  else None),
               ed_segment =
                 (if entity_type e \<noteq> ENTITY_ANALOG \<and> entity_type e = ENTITY_SEGMENT
                  then Some \<lparr>sf_source_count = source_count e,
                             sf_max_sample_count = max_sample_count e,
                             sf_sample_rate = sample_rate e\<rparr>
                  else None)\<rparr>))"

subsection \<open>Typed reads\<close>

definition get_analog_data :: "MCDFile \<Rightarrow> int \<Rightarrow> int \<Rightarrow> int \<Rightarrow> analog_record io" where
  "get_analog_data h entity_id start_index count =
     (case file_obj h of
        None \<Rightarrow> io_raise NotOpen
      | Some f \<Rightarrow>
          io_bind (extern (GetEntity entity_id) (get_entity f entity_id)) (\<lambda>e.
            if entity_type e \<noteq> ENTITY_ANALOG
            then io_raise (TypeMismatch entity_id ''analog'')
            else
              io_bind (extern (AnalogGetData entity_id start_index count)
                         (analog_get_data e start_index count)) (\<lambda>(data, timestamps, cont_count).
                io_return
                  \<lparr>ar_data = data,
                   ar_timestamps = timestamps,
                   ar_continuous_count = cont_count,
                   ar_sample_rate = sample_rate e,
                   ar_units = units e,
                   ar_label = label e,
                   ar_metadata =
                     \<lparr>am_min_value = min_value e, am_max_value = max_value e,
                      am_resolution = resolution e, am_location_x = location_x e,
                      am_location_y = location_y e, am_location_z = location_z e\<rparr>\<rparr>)))"

text \<open>
  The loop of \<open>get_event_data\<close>: \<open>timestamps\<close> starts as \<open>np.zeros(n_events)\<close> and is
  assigned at index \<open>i\<close>; \<open>values\<close> is appended to.
\<close>

fun event_loop ::
  "int \<Rightarrow> native_entity \<Rightarrow> nat list \<Rightarrow> pyfloat list \<Rightarrow> pyval list
     \<Rightarrow> (pyfloat list \<times> pyval list) io" where
  "event_loop entity_id e [] timestamps vals = io_return (timestamps, vals)"
| "event_loop entity_id e (i # rest) timestamps vals =
     io_bind (extern (EventGetData entity_id (int i)) (event_get_data e (int i))) (\<lambda>(timestamp, v).
       event_loop entity_id e rest (timestamps[i := timestamp]) (vals @ [v]))"

definition get_event_data :: "env \<Rightarrow> MCDFile \<Rightarrow> int \<Rightarrow> event_record io" where
  "get_event_data E h entity_id =
     (case file_obj h of
        None \<Rightarrow> io_raise NotOpen
      | Some f \<Rightarrow>
          io_bind (extern (GetEntity entity_id) (get_entity f entity_id)) (\<lambda>e.
            if entity_type e \<noteq> ENTITY_EVENT
            then io_raise (TypeMismatch entity_id ''event'')
            else
              io_bind (event_loop entity_id e [0..<item_count e]
                         (replicate (item_count e) (PyFloat 0 0)) []) (\<lambda>(timestamps, vals).
                io_return
                  \<lparr>er_timestamps = timestamps,
                   er_values = (case np_array E vals of
                                  Inr a \<Rightarrow> AsArray a
                                | Inl x \<Rightarrow> AsList vals),
                   er_event_type = event_type e,
                   er_label = label e\<rparr>)))"

definition get_segment_data :: "MCDFile \<Rightarrow> int \<Rightarrow> int \<Rightarrow> segment_record io" where
  "get_segment_data h entity_id index =
     (case file_obj h of
        None \<Rightarrow> io_raise NotOpen
      | Some f \<Rightarrow>
          io_bind (extern (GetEntity entity_id) (get_entity f entity_id)) (\<lambda>e.
            if entity_type e \<noteq> ENTITY_SEGMENT
            then io_raise (TypeMismatch entity_id ''segment'')
            else
              io_bind (extern (SegmentGetData entity_id index)
                         (segment_get_data e index)) (\<lambda>(data, timestamp, sample_count, unit_id).
                io_return
                  \<lparr>sr_data = data,
                   sr_timestamp = timestamp,
                   sr_sample_count = sample_count,
                   sr_unit_id = unit_id,
                   sr_source_count = source_count e,
                   sr_sample_rate = sample_rate e,
                   sr_label = label e\<rparr>)))"

text \<open>
  The loop of \<open>get_all_segments\<close>: each round calls \<open>get_segment_data\<close>, which fetches
  the entity and checks its type again.
\<close>

fun segments_loop ::
  "MCDFile \<Rightarrow> int \<Rightarrow> nat list \<Rightarrow> segment_record list \<Rightarrow> (segment_record list) io" where
  "segments_loop h entity_id [] segments = io_return segments"
| "segments_loop h entity_id (i # rest) segments =
     io_bind (get_segment_data h entity_id (int i)) (\<lambda>seg.
       segments_loop h entity_id rest (segments @ [seg]))"

definition get_all_segments :: "MCDFile \<Rightarrow> int \<Rightarrow> (segment_record list) io" where
  "get_all_segments h entity_id =
     (case file_obj h of
        None \<Rightarrow> io_raise NotOpen
      | Some f \<Rightarrow>
          io_bind (extern (GetEntity entity_id) (get_entity f entity_id)) (\<lambda>e.
            if entity_type e \<noteq> ENTITY_SEGMENT
            then io_raise (TypeMismatch entity_id ''segment'')
            else segments_loop h entity_id [0..<item_count e] []))"

definition get_neural_data :: "MCDFile \<Rightarrow> int \<Rightarrow> int \<Rightarrow> int \<Rightarrow> neural_record io" where
  "get_neural_data h entity_id start_index count =
     (case file_obj h of
        None \<Rightarrow> io_raise NotOpen
      | Some f \<Rightarrow>
          io_bind (extern (GetEntity entity_id) (get_entity f entity_id)) (\<lambda>e.
            if entity_type e \<noteq> ENTITY_NEURAL
            then io_raise (TypeMismatch entity_id ''neural'')
            else
              io_bind (extern (NeuralGetData entity_id start_index
                                 (if count < 0 then int (item_count e) else count))
                         (neural_get_data e start_index
                            (if count < 0 then int (item_count e) else count))) (\<lambda>data.
                io_return \<lparr>nr_timestamps = data, nr_label = label e\<rparr>)))"

section \<open>MCD2HDF5Converter\<close>

text \<open>
  The converter writes to the container between its reads, and whether a write raises
  may depend on what was written before. Its steps therefore take the calls made so far
  and return them extended, with the exception raised or the value returned.
\<close>

type_synonym 'a step = "event list \<Rightarrow> event list \<times> (error + 'a)"

definition st_return :: "'a \<Rightarrow> 'a step" where
  "st_return x tr = (tr, Inr x)"

definition st_bind :: "'a step \<Rightarrow> ('a \<Rightarrow> 'b step) \<Rightarrow> 'b step" where
  "st_bind m f tr = (case m tr of (tr', Inl e) \<Rightarrow> (tr', Inl e) | (tr', Inr x) \<Rightarrow> f x tr')"

text \<open>A call of a method of \<open>MCDFile\<close> from the converter.\<close>

definition run :: "'a io \<Rightarrow> 'a step" where
  "run m tr = (tr @ fst m, snd m)"

text \<open>A write to the container: recorded when it succeeds.\<close>

definition h5_do :: "env \<Rightarrow> h5_op \<Rightarrow> unit step" where
  "h5_do E w tr =
     (case h5_raises E tr w of
        Some x \<Rightarrow> (tr, Inl (Foreign x))
      | None \<Rightarrow> (tr @ [H5 w], Inr ()))"

fun h5_all :: "env \<Rightarrow> h5_op list \<Rightarrow> unit step" where
  "h5_all E [] = st_return ()"
| "h5_all E (w # ws) = st_bind (h5_do E w) (\<lambda>_. h5_all E ws)"

text \<open>
  \<open>if progress_callback: progress_callback(current, tot, message)\<close>. A callback is
  code of the caller and may raise.
\<close>

type_synonym callback = "nat \<Rightarrow> nat \<Rightarrow> string \<Rightarrow> foreign option"

definition call_progress :: "callback option \<Rightarrow> nat \<Rightarrow> nat \<Rightarrow> string \<Rightarrow> unit step" where
  "call_progress cb current tot msg tr =
     (case cb of
        None \<Rightarrow> (tr, Inr ())
      | Some c \<Rightarrow>
          (case c current tot msg of
             Some x \<Rightarrow> (tr @ [Progress current tot msg], Inl (Foreign x))
           | None \<Rightarrow> (tr @ [Progress current tot msg], Inr ())))"

text \<open>\<open>label.replace("/", "_")\<close>.\<close>

definition safe_label :: "string \<Rightarrow> string" where
  "safe_label s = map (\<lambda>c. if c = CHR ''/'' then CHR ''_'' else c) s"

text \<open>The format \<open>04d\<close>: decimal digits, padded with zeros to four.\<close>

fun decimal :: "nat \<Rightarrow> string" where
  "decimal n =
     (if n < 10 then [char_of (48 + n)]
      else decimal (n div 10) @ [char_of (48 + n mod 10)])"

declare decimal.simps [simp del]

definition segment_name :: "nat \<Rightarrow> string" where
  "segment_name seg_idx =
     ''segment_'' @ replicate (4 - length (decimal seg_idx)) (CHR ''0'') @ decimal seg_idx"

text \<open>The loop over \<open>enumerate(segments)\<close>.\<close>

fun write_segments :: "env \<Rightarrow> string \<Rightarrow> segment_record list \<Rightarrow> nat \<Rightarrow> unit step" where
  "write_segments E lbl [] seg_idx = st_return ()"
| "write_segments E lbl (seg # rest) seg_idx =
     st_bind (h5_all E
       [CreateGroup [''segments'', lbl] (segment_name seg_idx),
        CreateDataset [''segments'', lbl, segment_name seg_idx] ''data'' (Matrix (sr_data seg)),
        SetAttr [''segments'', lbl, segment_name seg_idx] ''timestamp''
          (FloatAttr (sr_timestamp seg)),
        SetAttr [''segments'', lbl, segment_name seg_idx] ''unit_id''
          (IntAttr (sr_unit_id seg))]) (\<lambda>_.
       write_segments E lbl rest (Suc seg_idx))"

text \<open>
  The body of the \<open>try\<close> for one entity: the read through the typed accessor, then the
  writes. An entity of any other type is passed over.
\<close>

definition entity_body :: "env \<Rightarrow> MCDFile \<Rightarrow> entity_summary \<Rightarrow> unit step" where
  "entity_body E mcd entity_info =
     (if es_type entity_info = ENTITY_EVENT then
        st_bind (run (get_event_data E mcd (es_id entity_info))) (\<lambda>data.
          st_bind (h5_all E
            [CreateGroup [''events''] (safe_label (es_label entity_info)),
             CreateDataset [''events'', safe_label (es_label entity_info)] ''timestamps''
               (Floats (er_timestamps data))]) (\<lambda>_.
            case er_values data of
              AsArray a \<Rightarrow>
                h5_do E (CreateDataset [''events'', safe_label (es_label entity_info)]
                           ''values'' (Values a))
            | AsList l \<Rightarrow> st_return ()))
      else if es_type entity_info = ENTITY_ANALOG then
        st_bind (run (get_analog_data mcd (es_id entity_info) 0 (- 1))) (\<lambda>data.
          h5_all E
            [CreateGroup [''analog''] (safe_label (es_label entity_info)),
             CreateDataset [''analog'', safe_label (es_label entity_info)] ''data''
               (Floats (ar_data data)),
             CreateDataset [''analog'', safe_label (es_label entity_info)] ''timestamps''
               (Floats (ar_timestamps data)),
             SetAttr [''analog'', safe_label (es_label entity_info)] ''sample_rate''
               (FloatAttr (ar_sample_rate data)),
             SetAttr [''analog'', safe_label (es_label entity_info)] ''units''
               (StrAttr (ar_units data))])
      else if es_type entity_info = ENTITY_SEGMENT then
        st_bind (run (get_all_segments mcd (es_id entity_info))) (\<lambda>segments.
          st_bind (h5_do E (CreateGroup [''segments''] (safe_label (es_label entity_info)))) (\<lambda>_.
            write_segments E (safe_label (es_label entity_info)) segments 0))
      else if es_type entity_info = ENTITY_NEURAL then
        st_bind (run (get_neural_data mcd (es_id entity_info) 0 (- 1))) (\<lambda>data.
          h5_all E
            [CreateGroup [''neural''] (safe_label (es_label entity_info)),
             CreateDataset [''neural'', safe_label (es_label entity_info)] ''timestamps''
               (Floats (nr_timestamps data))])
      else st_return ())"

text \<open>
  The \<open>try\<close> with its handler \<open>except Exception as e\<close>. The handler prints the
  warning; when printing returns the round ends normally, and when printing raises, that
  exception leaves the handler, since nothing encloses it. An exception of the block that
  is not an \<open>Exception\<close> is not handled.
\<close>

definition try_entity :: "env \<Rightarrow> MCDFile \<Rightarrow> entity_summary \<Rightarrow> unit step" where
  "try_entity E mcd entity_info tr =
     (case entity_body E mcd entity_info tr of
        (tr', Inl e) \<Rightarrow>
          if is_Exception e
          then (case print_raises E tr' (safe_label (es_label entity_info)) e of
                  Some x \<Rightarrow> (tr', Inl (Foreign x))
                | None \<Rightarrow> (tr' @ [Warning (safe_label (es_label entity_info)) e], Inr ()))
          else (tr', Inl e)
      | (tr', Inr u) \<Rightarrow> (tr', Inr ()))"

text \<open>
  The loop over \<open>enumerate(entities)\<close>; \<open>i\<close> is the position of the first entity of the
  list.
\<close>

fun convert_loop ::
  "env \<Rightarrow> callback option \<Rightarrow> MCDFile \<Rightarrow> nat \<Rightarrow> entity_summary list \<Rightarrow> nat \<Rightarrow> unit step" where
  "convert_loop E cb mcd tot [] i = st_return ()"
| "convert_loop E cb mcd tot (entity_info # rest) i =
     st_bind (call_progress cb i tot (''Converting '' @ es_label entity_info)) (\<lambda>_.
       st_bind (try_entity E mcd entity_info) (\<lambda>_.
         convert_loop E cb mcd tot rest (Suc i)))"

text \<open>
  The attributes of the root: the items of \<open>info()\<close> in their order, without \<open>date\<close>.
\<close>

definition info_attrs :: "file_info \<Rightarrow> h5_op list" where
  "info_attrs meta =
     [SetAttr [] ''file_type'' (StrAttr (fi_file_type meta)),
      SetAttr [] ''entity_count'' (IntAttr (int (fi_entity_count meta))),
      SetAttr [] ''time_stamp_resolution'' (FloatAttr (fi_time_stamp_resolution meta)),
      SetAttr [] ''time_span'' (FloatAttr (fi_time_span meta)),
      SetAttr [] ''app_name'' (StrAttr (fi_app_name meta)),
      SetAttr [] ''comment'' (StrAttr (fi_comment meta))]"

text \<open>
  \<open>MCD2HDF5Converter.convert\<close>. Leaving the two \<open>with\<close> blocks closes the source and
  the container on every path; neither makes a call that is recorded here.
\<close>

definition convert :: "env \<Rightarrow> callback option \<Rightarrow> string \<Rightarrow> string \<Rightarrow> unit step" where
  "convert E progress_callback mcd_filename hdf5_filename =
     (if \<not> h5py_available E then (\<lambda>tr. (tr, Inl DependencyMissing))
      else
        st_bind (run (MCDFile_init E mcd_filename None)) (\<lambda>mcd.
          st_bind (h5_do E (H5File hdf5_filename)) (\<lambda>_.
            st_bind (run (info mcd)) (\<lambda>meta.
              st_bind (h5_all E (info_attrs meta)) (\<lambda>_.
                st_bind (h5_all E
                  [CreateGroup [] ''events'', CreateGroup [] ''analog'',
                   CreateGroup [] ''segments'', CreateGroup [] ''neural'']) (\<lambda>_.
                  st_bind (run (list_entities mcd)) (\<lambda>entities.
                    st_bind (convert_loop E progress_callback mcd (length entities) entities 0) (\<lambda>_.
                      call_progress progress_callback (length entities) (length entities)
                        ''Conversion complete''))))))))"

section \<open>Calls made one after another\<close>

text \<open>
  The specification describes \<open>get_all_segments\<close> as calling \<open>get_segment_data\<close> for
  every index in order. \<open>in_order\<close> is the outcome of such a sequence of calls, given
  the outcome of each: the list of the values returned, or the first exception raised.
\<close>

fun in_order :: "(error + 'a) list \<Rightarrow> error + 'a list" where
  "in_order [] = Inr []"
| "in_order (Inl e # rs) = Inl e"
| "in_order (Inr x # rs) = (case in_order rs of Inl e \<Rightarrow> Inl e | Inr xs \<Rightarrow> Inr (x # xs))"


text \<open>
  Which entity a data read addresses, for the calls that read data; and the calls that
  are progress callbacks.
\<close>

fun read_of :: "event \<Rightarrow> int option" where
  "read_of (AnalogGetData i s c) = Some i"
| "read_of (EventGetData i k) = Some i"
| "read_of (SegmentGetData i k) = Some i"
| "read_of (NeuralGetData i s c) = Some i"
| "read_of ev = None"

fun is_progress :: "event \<Rightarrow> bool" where
  "is_progress (Progress i n m) = True"
| "is_progress ev = False"

text \<open>
  The calls that belong to the conversion of entity \<open>i\<close>: no progress callback, and no
  data read of another entity. The calls of the preparation: no callback, no data read.
\<close>

definition of_entity :: "int \<Rightarrow> event \<Rightarrow> bool" where
  "of_entity i ev = (\<not> is_progress ev \<and> (read_of ev = None \<or> read_of ev = Some i))"

definition no_read :: "event \<Rightarrow> bool" where
  "no_read ev = (\<not> is_progress ev \<and> read_of ev = None)"

text \<open>
  The calls of a loop in which round \<open>k\<close> opens with the callback
  \<open>(k, n, message k)\<close> and goes on with the calls of its entity.
\<close>

fun rounds :: "nat \<Rightarrow> nat \<Rightarrow> string list \<Rightarrow> event list list \<Rightarrow> event list" where
  "rounds k n (m # ms) (s # ss) = Progress k n m # s @ rounds (Suc k) n ms ss"
| "rounds k n ms ss = []"

text \<open>A step only adds calls, and each call it adds satisfies \<open>P\<close>.\<close>

definition emits :: "(event \<Rightarrow> bool) \<Rightarrow> 'a step \<Rightarrow> bool" where
  "emits P m = (\<forall>tr. \<exists>s. fst (m tr) = tr @ s \<and> list_all P s)"

section \<open>Sample recordings\<close>

text \<open>
  Concrete collaborators on which the theorems below are exercised. \<open>sample_entity\<close>
  is an entity of a binding that checks its indices: a read at an index that is not
  below \<open>item_count\<close> raises. Item \<open>k\<close> of an event entity is stamped \<open>k\<close> and valued
  \<open>k\<close>.
\<close>

definition sample_entity :: "string \<Rightarrow> int \<Rightarrow> nat \<Rightarrow> native_entity" where
  "sample_entity lbl ty n =
     \<lparr>label = lbl, entity_type = ty, item_count = n, entity_metadata_raw = [],
      sample_rate = PyFloat 1000 0, min_value = PyFloat 0 0, max_value = PyFloat 1 0,
      units = ''V'', resolution = PyFloat 1 0,
      location_x = PyFloat 0 0, location_y = PyFloat 0 0, location_z = PyFloat 0 0,
      source_count = 1, max_sample_count = 1, event_type = 0,
      analog_get_data = (\<lambda>start cnt. Inr ([PyFloat 7 0], [PyFloat 0 0], 1)),
      event_get_data = (\<lambda>k. if 0 \<le> k \<and> k < int n then Inr (PyFloat k 0, PyInt k)
                            else Inl (PyException ''ns_BADINDEX'')),
      segment_get_data = (\<lambda>k. if 0 \<le> k \<and> k < int n
                              then Inr ([[PyFloat k 0]], PyFloat k 0, 1, 0)
                              else Inl (PyException ''ns_BADINDEX'')),
      neural_get_data = (\<lambda>start cnt. Inr [PyFloat 3 0])\<rparr>"

text \<open>A file made of the given entities; an id out of range raises.\<close>

definition sample_file :: "native_entity list \<Rightarrow> native_file" where
  "sample_file es =
     \<lparr>file_type = ''MCS'', entity_count = length es,
      time_stamp_resolution = PyFloat 1 (- 5), time_span = PyFloat 1 0,
      app_name = ''MC_Rack'', comment = [],
      metadata_raw = (\<lambda>k. None),
      get_entity = (\<lambda>i. if 0 \<le> i \<and> nat i < length es then Inr (es ! nat i)
                         else Inl (PyException ''ns_BADENTITY''))\<rparr>"

definition sample_handle :: "native_entity list \<Rightarrow> MCDFile" where
  "sample_handle es =
     \<lparr>filename = ''rec.mcd'', library_path = ''nsMCDLibrary.so'',
      lib_obj = None, file_obj = Some (sample_file es)\<rparr>"

text \<open>
  numpy is not part of the repository. On a list of Python scalars \<open>np.array\<close> does not
  raise: it returns an array with one element per value, in the order of the list, of
  the one element type numpy finds for them all. That type is text as soon as one value
  is text (\<open>np.array([1, 'a'])\<close> is \<open>array(['1', 'a'])\<close>), else floating point when
  the list is empty or holds a float, else integer (the integers of the binding are at
  most 32 bits wide).
\<close>

fun is_text :: "pyval \<Rightarrow> bool" where
  "is_text (PyStr s) = True"
| "is_text v = False"

fun is_float :: "pyval \<Rightarrow> bool" where
  "is_float (PyFlt x) = True"
| "is_float v = False"

definition result_type :: "pyval list \<Rightarrow> dtype" where
  "result_type vs =
     (if list_ex is_text vs then Unicode
      else if vs = [] \<or> list_ex is_float vs then Float64
      else Int64)"

definition numpy_array :: "pyval list \<Rightarrow> foreign + ndarray" where
  "numpy_array vs = Inr (NdArray (result_type vs) vs)"

text \<open>
  Surroundings in which only \<open>rec.mcd\<close> exists and holds the given entities, numpy
  is as above, h5py is installed, no write raises and printing a warning never raises.
\<close>

definition sample_env :: "native_entity list \<Rightarrow> env" where
  "sample_env es =
     \<lparr>path_exists = (\<lambda>p. p = ''rec.mcd''), platform = ''linux'',
      script_dir = ''/opt/mcd'', cwd = ''/home/lab'',
      path_join = (\<lambda>a b. a @ ''/'' @ b),
      dirname = (\<lambda>p. []), basename = (\<lambda>p. p),
      ns_Library = (\<lambda>name dir. None),
      ns_File = (\<lambda>p. Inr (sample_file es)),
      np_array = numpy_array,
      h5py_available = True,
      h5_raises = (\<lambda>tr w. None),
      unicode_lower = (\<lambda>s. s),
      print_raises = (\<lambda>tr lbl e. None)\<rparr>"

text \<open>A callback that never raises.\<close>

definition quiet_callback :: callback where
  "quiet_callback current tot msg = None"

text \<open>
  A recording with an analog channel of three samples and a trigger channel of five
  events.
\<close>

definition two_entities :: "native_entity list" where
  "two_entities = [sample_entity ''Ch1'' 2 3, sample_entity ''Trig'' 1 5]"



text \<open>
  An analog channel whose read raises, followed by a sound trigger channel; and a file
  whose second entity cannot be fetched.
\<close>

definition broken_entity :: "string \<Rightarrow> native_entity" where
  "broken_entity lbl =
     (sample_entity lbl 2 3)
       \<lparr>analog_get_data := (\<lambda>start cnt. Inl (PyException ''ns_LIBERROR''))\<rparr>"

definition broken_then_sound :: "native_entity list" where
  "broken_then_sound = [broken_entity ''Bad/1'', sample_entity ''Trig'' 1 2]"

definition unlistable_file :: native_file where
  "unlistable_file =
     (sample_file two_entities)
       \<lparr>get_entity := (\<lambda>i. if i = 1 then Inl (PyException ''ns_BADENTITY'')
                            else get_entity (sample_file two_entities) i)\<rparr>"

definition unlistable_env :: env where
  "unlistable_env = (sample_env two_entities)\<lparr>ns_File := (\<lambda>p. Inr unlistable_file)\<rparr>"

definition unlistable_handle :: MCDFile where
  "unlistable_handle =
     \<lparr>filename = ''rec.mcd'',
      library_path = ''/opt/mcd/Matlab-Import-Filter/Matlab_Interface/nsMCDLibrary.so'',
      lib_obj = None, file_obj = Some unlistable_file\<rparr>"

section \<open>Facts about the two layers of effects\<close>

lemma io_bind_simps:
  "io_bind (t, Inl e) f = (t, Inl e)"
  "io_bind (t, Inr x) f = (t @ fst (f x), snd (f x))"
  "io_bind (io_raise e) f = io_raise e"
  "io_bind (io_return x) f = f x"
  by (simp_all add: io_bind_def io_raise_def io_return_def split: prod.splits)

lemma io_bind_extern:
  "io_bind (extern ev (Inr v)) f = (ev # fst (f v), snd (f v))"
  "io_bind (extern ev (Inl x)) f = ([ev], Inl (Foreign x))"
  by (simp_all add: extern_def io_bind_simps)

lemma io_bind_Inr:
  "io_bind m f = (t, Inr y) \<Longrightarrow>
     \<exists>t1 x t2. m = (t1, Inr x) \<and> f x = (t2, Inr y) \<and> t = t1 @ t2"
  by (auto simp: io_bind_def split: prod.splits sum.splits)

section \<open>Listing and filtering\<close>

lemma list_entities_loop_ids:
  "list_entities_loop f ids acc = (t, Inr es) \<Longrightarrow>
     map es_id es = map es_id acc @ map int ids"
proof (induction ids arbitrary: acc t)
  case Nil
  then show ?case by (simp add: io_return_def)
next
  case (Cons i rest)
  from Cons.prems obtain e t2 where
    "list_entities_loop f rest (acc @ [summary i e]) = (t2, Inr es)"
    by (auto dest!: io_bind_Inr)
  from Cons.IH [OF this] show ?case by (simp add: summary_def)
qed

lemma list_entities_ids:
  assumes "list_entities h = (t, Inr es)"
  shows "\<exists>n. map es_id es = map int [0..<n]"
  using assms list_entities_loop_ids
  by (fastforce simp: list_entities_def io_raise_def split: option.splits)

lemma list_entities_loop_error:
  "list_entities_loop f ids acc = (t, Inl e) \<Longrightarrow> \<exists>x. e = Foreign x"
proof (induction ids arbitrary: acc t)
  case Nil
  then show ?case by (simp add: io_return_def)
next
  case (Cons i rest)
  show ?case
  proof (cases "get_entity f (int i)")
    case (Inl x)
    with Cons.prems show ?thesis by (auto simp: io_bind_extern)
  next
    case (Inr v)
    with Cons.prems obtain t' where
      "list_entities_loop f rest (acc @ [summary i v]) = (t', Inl e)"
      by (simp add: io_bind_extern) (metis prod.collapse)
    then show ?thesis by (rule Cons.IH)
  qed
qed

lemma list_entities_loop_names:
  "list_entities_loop f ids acc = (t, Inr es) \<Longrightarrow>
   \<forall>m\<in>set acc. es_type_name m = dict_get ENTITY_TYPE_NAMES (es_type m) ''unknown'' \<Longrightarrow>
   \<forall>m\<in>set es. es_type_name m = dict_get ENTITY_TYPE_NAMES (es_type m) ''unknown''"
proof (induction ids arbitrary: acc t)
  case Nil
  then show ?case by (simp add: io_return_def)
next
  case (Cons i rest)
  from Cons.prems(1) obtain e t2 where
    step: "list_entities_loop f rest (acc @ [summary i e]) = (t2, Inr es)"
    by (auto dest!: io_bind_Inr)
  show ?case
    by (rule Cons.IH [OF step]) (use Cons.prems(2) in \<open>simp add: summary_def\<close>)
qed

lemma list_entities_names:
  assumes "list_entities h = (t, Inr es)" and "m \<in> set es"
  shows "es_type_name m = dict_get ENTITY_TYPE_NAMES (es_type m) ''unknown''"
proof -
  from assms(1) obtain f where "list_entities_loop f [0..<entity_count f] [] = (t, Inr es)"
    by (auto simp: list_entities_def io_raise_def split: option.splits)
  from list_entities_loop_names [OF this] assms(2) show ?thesis by simp
qed

lemma count_list_distinct: "distinct xs \<Longrightarrow> x \<in> set xs \<Longrightarrow> count_list xs x = 1"
  by (induction xs) auto

lemma type_map_lower_name:
  "k \<in> {0, 1, 2, 3, 4} \<Longrightarrow>
     type_map (lower E (dict_get ENTITY_TYPE_NAMES k ''unknown'')) = Some k"
  by (auto simp: type_map_def ENTITY_TYPE_NAMES_def dict_get_def lower_def lower_char_def)

lemma list_two_entities:
  "list_entities (sample_handle two_entities) =
     ([GetEntity 0, GetEntity 1],
      Inr [\<lparr>es_id = 0, es_label = ''Ch1'', es_type = 2, es_type_name = ''analog'',
             es_item_count = 3\<rparr>,
           \<lparr>es_id = 1, es_label = ''Trig'', es_type = 1, es_type_name = ''event'',
             es_item_count = 5\<rparr>])"
  by (simp add: list_entities_def sample_handle_def sample_file_def sample_entity_def
      two_entities_def upt_rec io_bind_extern io_return_def summary_def dict_get_def
      ENTITY_TYPE_NAMES_def)

text \<open>
  C1. An entity has one of the five types of \<open>ENTITY_TYPE_NAMES\<close>, codes 0 to 4. For
  every entity \<open>e\<close> of a listing, \<open>get_entities_by_type(e.type_name)\<close> makes the same
  calls as the listing and returns the entities of the listing whose type is that of
  \<open>e\<close>, in the order of the listing: \<open>e\<close> occurs in it exactly once, every member
  has the requested type, and the ids increase.
\<close>

theorem entities_by_type_name_contains_once:
  assumes listed: "list_entities h = (t, Inr es)"
    and mem: "e \<in> set es"
    and known: "es_type e \<in> {0, 1, 2, 3, 4}"
  shows "get_entities_by_type E h (TypeName (es_type_name e)) =
           (t, Inr (filter (\<lambda>m. es_type m = es_type e) es)) \<and>
         count_list (filter (\<lambda>m. es_type m = es_type e) es) e = 1 \<and>
         (\<forall>m\<in>set (filter (\<lambda>m. es_type m = es_type e) es). es_type m = es_type e) \<and>
         sorted_wrt (<) (map es_id (filter (\<lambda>m. es_type m = es_type e) es))"
proof -
  let ?r = "filter (\<lambda>m. es_type m = es_type e) es"
  from list_entities_ids [OF listed] obtain n where ids: "map es_id es = map int [0..<n]"
    by blast
  have "sorted_wrt (<) (map es_id es)"
    unfolding ids by (simp add: sorted_wrt_map)
  then have sorted_ids: "sorted_wrt (\<lambda>a b. es_id a < es_id b) es"
    by (simp only: sorted_wrt_map)
  have "distinct (map int [0..<n])"
    by (simp add: distinct_map)
  with ids have "distinct es"
    by (metis distinct_map)
  then have once: "count_list ?r e = 1"
    using mem by (intro count_list_distinct) simp_all
  have order: "sorted_wrt (<) (map es_id ?r)"
    using sorted_ids by (simp add: sorted_wrt_map sorted_wrt_filter)
  have "type_map (lower E (es_type_name e)) = Some (es_type e)"
    using list_entities_names [OF listed mem] type_map_lower_name [OF known] by simp
  then have "get_entities_by_type E h (TypeName (es_type_name e)) = (t, Inr ?r)"
    using listed by (simp add: get_entities_by_type_def io_bind_simps io_return_def)
  with once order show ?thesis by simp
qed

theorem entities_by_type_name_contains_once_witness:
  "list_entities (sample_handle two_entities) =
     ([GetEntity 0, GetEntity 1],
      Inr [\<lparr>es_id = 0, es_label = ''Ch1'', es_type = 2, es_type_name = ''analog'',
             es_item_count = 3\<rparr>,
           \<lparr>es_id = 1, es_label = ''Trig'', es_type = 1, es_type_name = ''event'',
             es_item_count = 5\<rparr>]) \<and>
   get_entities_by_type (sample_env two_entities) (sample_handle two_entities)
       (TypeName ''analog'') =
     ([GetEntity 0, GetEntity 1],
      Inr [\<lparr>es_id = 0, es_label = ''Ch1'', es_type = 2, es_type_name = ''analog'',
             es_item_count = 3\<rparr>])"
proof -
  let ?a = "\<lparr>es_id = 0, es_label = ''Ch1'', es_type = 2, es_type_name = ''analog'',
             es_item_count = 3\<rparr>"
  let ?b = "\<lparr>es_id = 1, es_label = ''Trig'', es_type = 1, es_type_name = ''event'',
             es_item_count = 5\<rparr>"
  have mem: "?a \<in> set [?a, ?b]" by simp
  have known: "es_type ?a \<in> {0, 1, 2, 3, 4}" by simp
  from entities_by_type_name_contains_once
         [OF list_two_entities mem known, of "sample_env two_entities"]
  show ?thesis by (simp add: list_two_entities)
qed

text \<open>
  C9. A numeric type code is not validated: whatever the integer, the call never raises
  the \<open>ValueError\<close> of an invalid type, and when the listing returns, the call makes the
  same calls and returns the listed entities whose type equals the code (none, when none
  has it).
\<close>

theorem numeric_type_code_not_validated:
  "(\<forall>s. snd (get_entities_by_type E h (TypeCode n)) \<noteq> Inl (InvalidArgument s)) \<and>
   (\<forall>t es. list_entities h = (t, Inr es) \<longrightarrow>
      get_entities_by_type E h (TypeCode n) = (t, Inr (filter (\<lambda>e. es_type e = n) es)))"
proof -
  have eq: "get_entities_by_type E h (TypeCode n) =
              io_bind (list_entities h) (\<lambda>all_entities.
                io_return (filter (\<lambda>e. es_type e = n) all_entities))"
    by (simp add: get_entities_by_type_def io_bind_simps)
  have "snd (get_entities_by_type E h (TypeCode n)) \<noteq> Inl (InvalidArgument s)" for s
  proof (cases "list_entities h")
    case (Pair t r)
    show ?thesis
    proof (cases r)
      case (Inr es)
      with Pair eq show ?thesis by (simp add: io_bind_simps io_return_def)
    next
      case (Inl err)
      have "err = NotOpen \<or> (\<exists>x. err = Foreign x)"
      proof (cases "file_obj h")
        case None
        with Pair Inl show ?thesis by (simp add: list_entities_def io_raise_def)
      next
        case (Some f)
        with Pair Inl have "list_entities_loop f [0..<entity_count f] [] = (t, Inl err)"
          by (simp add: list_entities_def)
        then show ?thesis by (auto dest: list_entities_loop_error)
      qed
      with Pair Inl eq show ?thesis by (auto simp: io_bind_simps)
    qed
  qed
  moreover have
    "get_entities_by_type E h (TypeCode n) = (t, Inr (filter (\<lambda>e. es_type e = n) es))"
    if "list_entities h = (t, Inr es)" for t es
    using that eq by (simp add: io_bind_simps io_return_def)
  ultimately show ?thesis by blast
qed

theorem numeric_type_code_not_validated_witness:
  "get_entities_by_type (sample_env two_entities) (sample_handle two_entities) (TypeCode 7) =
     ([GetEntity 0, GetEntity 1], Inr []) \<and>
   get_entities_by_type (sample_env two_entities) (sample_handle two_entities) (TypeCode 1) =
     ([GetEntity 0, GetEntity 1],
      Inr [\<lparr>es_id = 1, es_label = ''Trig'', es_type = 1, es_type_name = ''event'',
             es_item_count = 5\<rparr>])"
  using numeric_type_code_not_validated
          [of "sample_env two_entities" "sample_handle two_entities" 7]
    numeric_type_code_not_validated
          [of "sample_env two_entities" "sample_handle two_entities" 1]
  by (simp add: list_two_entities)

section \<open>Typed reads\<close>

text \<open>
  C2. On an open file, a typed accessor called on an entity whose type is not the
  accessor's raises the \<open>ValueError\<close> of a type mismatch, and the only call it has made
  is the fetch of the entity: no data is read.
\<close>

theorem mismatched_accessor_fails_without_read:
  assumes "file_obj h = Some f" and "get_entity f i = Inr e"
  shows "(entity_type e \<noteq> ENTITY_ANALOG \<longrightarrow>
            get_analog_data h i s c = ([GetEntity i], Inl (TypeMismatch i ''analog''))) \<and>
         (entity_type e \<noteq> ENTITY_EVENT \<longrightarrow>
            get_event_data E h i = ([GetEntity i], Inl (TypeMismatch i ''event''))) \<and>
         (entity_type e \<noteq> ENTITY_SEGMENT \<longrightarrow>
            get_segment_data h i k = ([GetEntity i], Inl (TypeMismatch i ''segment''))) \<and>
         (entity_type e \<noteq> ENTITY_SEGMENT \<longrightarrow>
            get_all_segments h i = ([GetEntity i], Inl (TypeMismatch i ''segment''))) \<and>
         (entity_type e \<noteq> ENTITY_NEURAL \<longrightarrow>
            get_neural_data h i s c = ([GetEntity i], Inl (TypeMismatch i ''neural'')))"
  using assms
  by (simp add: get_analog_data_def get_event_data_def get_segment_data_def
      get_all_segments_def get_neural_data_def io_bind_extern io_raise_def)

theorem mismatched_accessor_fails_without_read_witness:
  "get_entity (sample_file [sample_entity ''U'' 0 4]) 0 = Inr (sample_entity ''U'' 0 4) \<and>
   get_analog_data (sample_handle [sample_entity ''U'' 0 4]) 0 0 (- 1) =
     ([GetEntity 0], Inl (TypeMismatch 0 ''analog'')) \<and>
   get_event_data (sample_env []) (sample_handle [sample_entity ''U'' 0 4]) 0 =
     ([GetEntity 0], Inl (TypeMismatch 0 ''event'')) \<and>
   get_segment_data (sample_handle [sample_entity ''U'' 0 4]) 0 2 =
     ([GetEntity 0], Inl (TypeMismatch 0 ''segment'')) \<and>
   get_all_segments (sample_handle [sample_entity ''U'' 0 4]) 0 =
     ([GetEntity 0], Inl (TypeMismatch 0 ''segment'')) \<and>
   get_neural_data (sample_handle [sample_entity ''U'' 0 4]) 0 0 (- 1) =
     ([GetEntity 0], Inl (TypeMismatch 0 ''neural''))"
proof -
  have opened: "file_obj (sample_handle [sample_entity ''U'' 0 4]) =
      Some (sample_file [sample_entity ''U'' 0 4])"
    by (simp add: sample_handle_def)
  have fetched: "get_entity (sample_file [sample_entity ''U'' 0 4]) 0 =
      Inr (sample_entity ''U'' 0 4)"
    by (simp add: sample_file_def)
  have ty: "entity_type (sample_entity ''U'' 0 4) = 0"
    by (simp add: sample_entity_def)
  from mismatched_accessor_fails_without_read
         [OF opened fetched, of 0 "- 1" "sample_env []" 2] fetched ty
  show ?thesis
    by (simp add: ENTITY_ANALOG_def ENTITY_EVENT_def ENTITY_SEGMENT_def ENTITY_NEURAL_def)
qed



lemma in_order_length: "in_order rs = Inr xs \<Longrightarrow> length xs = length rs"
proof (induction rs arbitrary: xs rule: in_order.induct)
  case 1
  then show ?case by simp
next
  case (2 e rs)
  then show ?case by simp
next
  case (3 x rs)
  then show ?case by (auto split: sum.splits)
qed

lemma in_order_nth:
  "in_order rs = Inr xs \<Longrightarrow> k < length rs \<Longrightarrow> rs ! k = Inr (xs ! k)"
proof (induction rs arbitrary: xs k rule: in_order.induct)
  case 1
  then show ?case by simp
next
  case (2 e rs)
  then show ?case by simp
next
  case (3 x rs)
  then show ?case by (cases k) (auto split: sum.splits)
qed

lemma in_order_total:
  "\<forall>k<length rs. \<exists>s. rs ! k = Inr s \<Longrightarrow> \<exists>xs. in_order rs = Inr xs"
proof (induction rs rule: in_order.induct)
  case 1
  then show ?case by simp
next
  case (2 e rs)
  then have "\<exists>s. (Inl e # rs) ! 0 = Inr s" by blast
  then show ?case by simp
next
  case (3 x rs)
  have "\<forall>k<length rs. \<exists>s. rs ! k = Inr s"
  proof (intro allI impI)
    fix k assume "k < length rs"
    then have "Suc k < length (Inr x # rs)" by simp
    with "3.prems" have "\<exists>s. (Inr x # rs) ! Suc k = Inr s" by blast
    then show "\<exists>s. rs ! k = Inr s" by simp
  qed
  from "3.IH" [OF this] show ?case by auto
qed

lemma segments_loop_in_order:
  "snd (segments_loop h i ks acc) =
     (case in_order (map (\<lambda>k. snd (get_segment_data h i (int k))) ks) of
        Inl e \<Rightarrow> Inl e
      | Inr xs \<Rightarrow> Inr (acc @ xs))"
proof (induction ks arbitrary: acc)
  case Nil
  then show ?case by (simp add: io_return_def)
next
  case (Cons k ks)
  obtain t r where g: "get_segment_data h i (int k) = (t, r)"
    by (cases "get_segment_data h i (int k)")
  show ?case
  proof (cases r)
    case (Inl e)
    with g show ?thesis by (simp add: io_bind_simps)
  next
    case (Inr seg)
    with g Cons.IH [of "acc @ [seg]"] show ?thesis
      by (simp add: io_bind_simps split: sum.splits)
  qed
qed

text \<open>
  C4. On an open file and a segment entity, the outcome of \<open>get_all_segments(id)\<close> is
  that of calling \<open>get_segment_data(id, k)\<close> for \<open>k = 0, ..., item_count - 1\<close> in
  this order. When it returns, its list has exactly \<open>item_count\<close> members and the
  member at \<open>k\<close> is what \<open>get_segment_data(id, k)\<close> returns; and it does return when
  each of these calls returns.
\<close>

theorem all_segments_is_each_segment_in_order:
  assumes "file_obj h = Some f" and "get_entity f i = Inr e"
    and "entity_type e = ENTITY_SEGMENT"
  shows "snd (get_all_segments h i) =
           in_order (map (\<lambda>k. snd (get_segment_data h i (int k))) [0..<item_count e]) \<and>
         (\<forall>segs. snd (get_all_segments h i) = Inr segs \<longrightarrow>
            length segs = item_count e \<and>
            (\<forall>k<item_count e. snd (get_segment_data h i (int k)) = Inr (segs ! k))) \<and>
         ((\<forall>k<item_count e. \<exists>s. snd (get_segment_data h i (int k)) = Inr s) \<longrightarrow>
            (\<exists>segs. snd (get_all_segments h i) = Inr segs))"
proof -
  let ?rs = "map (\<lambda>k. snd (get_segment_data h i (int k))) [0..<item_count e]"
  have "snd (get_all_segments h i) = snd (segments_loop h i [0..<item_count e] [])"
    using assms by (simp add: get_all_segments_def io_bind_extern)
  also have "\<dots> = in_order ?rs"
    by (simp add: segments_loop_in_order split: sum.splits)
  finally have eq: "snd (get_all_segments h i) = in_order ?rs" .
  have shape: "length segs = item_count e \<and>
      (\<forall>k<item_count e. snd (get_segment_data h i (int k)) = Inr (segs ! k))"
    if "snd (get_all_segments h i) = Inr segs" for segs
  proof -
    from that eq have io: "in_order ?rs = Inr segs" by simp
    from in_order_length [OF io] have len: "length segs = item_count e" by simp
    have "snd (get_segment_data h i (int k)) = Inr (segs ! k)" if "k < item_count e" for k
      using in_order_nth [OF io, of k] that by simp
    with len show ?thesis by blast
  qed
  have returns: "\<exists>segs. snd (get_all_segments h i) = Inr segs"
    if "\<forall>k<item_count e. \<exists>s. snd (get_segment_data h i (int k)) = Inr s"
  proof -
    from that have "\<forall>k<length ?rs. \<exists>s. ?rs ! k = Inr s" by simp
    from in_order_total [OF this] eq show ?thesis by simp
  qed
  from eq shape returns show ?thesis by blast
qed

lemma sample_segment_reads:
  "get_segment_data (sample_handle [sample_entity ''S'' 3 2]) 0 0 =
     ([GetEntity 0, SegmentGetData 0 0],
      Inr \<lparr>sr_data = [[PyFloat 0 0]], sr_timestamp = PyFloat 0 0, sr_sample_count = 1,
           sr_unit_id = 0, sr_source_count = 1, sr_sample_rate = PyFloat 1000 0,
           sr_label = ''S''\<rparr>)"
  "get_segment_data (sample_handle [sample_entity ''S'' 3 2]) 0 1 =
     ([GetEntity 0, SegmentGetData 0 1],
      Inr \<lparr>sr_data = [[PyFloat 1 0]], sr_timestamp = PyFloat 1 0, sr_sample_count = 1,
           sr_unit_id = 0, sr_source_count = 1, sr_sample_rate = PyFloat 1000 0,
           sr_label = ''S''\<rparr>)"
  by (simp_all add: get_segment_data_def sample_handle_def sample_file_def
      sample_entity_def ENTITY_SEGMENT_def io_bind_extern io_return_def)

theorem all_segments_is_each_segment_in_order_witness:
  "item_count (sample_entity ''S'' 3 2) = 2 \<and>
   snd (get_all_segments (sample_handle [sample_entity ''S'' 3 2]) 0) =
     Inr [\<lparr>sr_data = [[PyFloat 0 0]], sr_timestamp = PyFloat 0 0, sr_sample_count = 1,
            sr_unit_id = 0, sr_source_count = 1, sr_sample_rate = PyFloat 1000 0,
            sr_label = ''S''\<rparr>,
          \<lparr>sr_data = [[PyFloat 1 0]], sr_timestamp = PyFloat 1 0, sr_sample_count = 1,
            sr_unit_id = 0, sr_source_count = 1, sr_sample_rate = PyFloat 1000 0,
            sr_label = ''S''\<rparr>]"
proof -
  have opened: "file_obj (sample_handle [sample_entity ''S'' 3 2]) =
      Some (sample_file [sample_entity ''S'' 3 2])"
    by (simp add: sample_handle_def)
  have fetched: "get_entity (sample_file [sample_entity ''S'' 3 2]) 0 =
      Inr (sample_entity ''S'' 3 2)"
    by (simp add: sample_file_def)
  have ty: "entity_type (sample_entity ''S'' 3 2) = ENTITY_SEGMENT"
    by (simp add: sample_entity_def ENTITY_SEGMENT_def)
  have n: "item_count (sample_entity ''S'' 3 2) = 2"
    by (simp add: sample_entity_def)
  from all_segments_is_each_segment_in_order [OF opened fetched ty] n
  show ?thesis by (simp add: upt_rec sample_segment_reads)
qed

lemma fold_assign:
  "n \<le> length T \<Longrightarrow>
     fold (\<lambda>k T. T[k := g k]) [0..<n] T = map g [0..<n] @ drop n T"
proof (induction n)
  case 0
  then show ?case by simp
next
  case (Suc n)
  then have n: "n < length T" by simp
  have "(map g [0..<n] @ drop n T)[n := g n] = map g [0..<n] @ (drop n T)[0 := g n]"
    by (simp add: list_update_append)
  also have "(drop n T)[0 := g n] = g n # drop (Suc n) T"
    using n by (simp add: Cons_nth_drop_Suc [symmetric])
  finally show ?case using Suc by simp
qed

lemma event_loop_reads_all:
  assumes "\<forall>k\<in>set ks. event_get_data e (int k) = Inr (ts k, vs k)"
  shows "snd (event_loop i e ks T V) = Inr (fold (\<lambda>k T. T[k := ts k]) ks T, V @ map vs ks)"
  using assms
proof (induction ks arbitrary: T V)
  case Nil
  then show ?case by (simp add: io_return_def)
next
  case (Cons k ks)
  then have "event_get_data e (int k) = Inr (ts k, vs k)" by simp
  moreover have "snd (event_loop i e ks (T[k := ts k]) (V @ [vs k])) =
      Inr (fold (\<lambda>k T. T[k := ts k]) ks (T[k := ts k]), (V @ [vs k]) @ map vs ks)"
    using Cons.prems by (intro Cons.IH) simp
  ultimately show ?case by (simp add: io_bind_extern)
qed

text \<open>
  What \<open>get_event_data\<close> does with the items: on an open file and an event entity
  whose items the binding reads (item \<open>k\<close> stamped \<open>ts k\<close> and valued \<open>vs k\<close>), it
  returns; its timestamps are the stamps of the items in order, exactly \<open>item_count\<close>
  of them; and the values of the items, in order, are handed to \<open>np.array\<close>, whose
  array is returned, or which raises, and then that list is returned.
\<close>

lemma get_event_data_reads_every_item:
  assumes "file_obj h = Some f" and "get_entity f i = Inr e"
    and "entity_type e = ENTITY_EVENT"
    and "\<forall>k<item_count e. event_get_data e (int k) = Inr (ts k, vs k)"
  shows "\<exists>r. snd (get_event_data E h i) = Inr r \<and>
           er_timestamps r = map ts [0..<item_count e] \<and>
           length (er_timestamps r) = item_count e \<and>
           er_values r =
             (case np_array E (map vs [0..<item_count e]) of
                Inr a \<Rightarrow> AsArray a
              | Inl x \<Rightarrow> AsList (map vs [0..<item_count e]))"
proof -
  let ?n = "item_count e"
  have "\<forall>k\<in>set [0..<?n]. event_get_data e (int k) = Inr (ts k, vs k)"
    using assms(4) by simp
  from event_loop_reads_all [OF this]
  have "snd (event_loop i e [0..<?n] (replicate ?n (PyFloat 0 0)) []) =
          Inr (map ts [0..<?n], map vs [0..<?n])"
    by (simp add: fold_assign)
  then obtain t where
    "event_loop i e [0..<?n] (replicate ?n (PyFloat 0 0)) [] =
       (t, Inr (map ts [0..<?n], map vs [0..<?n]))"
    by (metis prod.collapse)
  with assms(1-3) show ?thesis
    by (simp add: get_event_data_def io_bind_extern io_bind_simps io_return_def)
qed


section \<open>Opening and closing\<close>

text \<open>
  C5. Opening a path that does not exist raises \<open>FileNotFoundError\<close>, and the probe
  of that path is the only call made: no library is searched for and the binding is not
  called.
\<close>

theorem open_missing_file_not_found:
  "\<not> path_exists E fname \<Longrightarrow>
     MCDFile_init E fname lp = ([PathExists fname], Inl (NotFound fname))"
  by (simp add: MCDFile_init_def exists_io_def io_bind_simps io_raise_def)

theorem open_missing_file_not_found_witness:
  "\<not> path_exists (sample_env two_entities) ''missing.mcd'' \<and>
   MCDFile_init (sample_env two_entities) ''missing.mcd'' (Some ''/usr/lib/nsMCDLibrary.so'') =
     ([PathExists ''missing.mcd''], Inl (NotFound ''missing.mcd''))"
proof -
  have absent: "\<not> path_exists (sample_env two_entities) ''missing.mcd''"
    by (simp add: sample_env_def)
  from open_missing_file_not_found [OF absent] absent show ?thesis by simp
qed

text \<open>
  C6. \<open>close\<close> always returns; closing once more, any number of times, changes nothing
  and leaves the handle without a file; and on a closed handle every read operation
  raises the \<open>RuntimeError\<close> of a file that is not open, before any call.
\<close>

theorem close_idempotent_then_not_open:
  "(close ^^ Suc n) h = close h \<and>
   file_obj (close h) = None \<and>
   info (close h) = ([], Inl NotOpen) \<and>
   list_entities (close h) = ([], Inl NotOpen) \<and>
   get_entity_info (close h) i = ([], Inl NotOpen) \<and>
   get_analog_data (close h) i s c = ([], Inl NotOpen) \<and>
   get_event_data E (close h) i = ([], Inl NotOpen) \<and>
   get_segment_data (close h) i k = ([], Inl NotOpen) \<and>
   get_all_segments (close h) i = ([], Inl NotOpen) \<and>
   get_neural_data (close h) i s c = ([], Inl NotOpen)"
proof -
  have cc: "close (close g) = close g" for g
    by (simp add: close_def)
  have pow: "(close ^^ Suc n) h = close h"
    by (induction n) (simp_all add: cc)
  have closed: "file_obj (close h) = None"
    by (simp add: close_def)
  show ?thesis
    using pow closed
    by (simp add: info_def list_entities_def get_entity_info_def get_analog_data_def
        get_event_data_def get_segment_data_def get_all_segments_def get_neural_data_def
        io_raise_def)
qed

theorem close_idempotent_then_not_open_witness:
  "close (close (close (sample_handle two_entities))) = close (sample_handle two_entities) \<and>
   file_obj (sample_handle two_entities) \<noteq> None \<and>
   file_obj (close (sample_handle two_entities)) = None \<and>
   list_entities (close (sample_handle two_entities)) = ([], Inl NotOpen) \<and>
   get_analog_data (close (sample_handle two_entities)) 0 0 (- 1) = ([], Inl NotOpen)"
  using close_idempotent_then_not_open [of 2 "sample_handle two_entities" 0 0 "- 1"]
  by (simp add: numeral_2_eq_2 sample_handle_def)

section \<open>The conversion loop\<close>

lemma st_bind_Inr:
  "st_bind m f tr = (tr', Inr y) \<Longrightarrow> \<exists>t1 x. m tr = (t1, Inr x) \<and> f x t1 = (tr', Inr y)"
  by (auto simp: st_bind_def split: prod.splits sum.splits)

lemma st_bind_Inl:
  "st_bind m f tr = (tr', Inl e) \<Longrightarrow>
     m tr = (tr', Inl e) \<or> (\<exists>t1 x. m tr = (t1, Inr x) \<and> f x t1 = (tr', Inl e))"
  by (auto simp: st_bind_def split: prod.splits sum.splits)

lemma call_progress_Inl:
  "call_progress cb k n m tr = (tr', Inl e) \<Longrightarrow>
     \<exists>c x. cb = Some c \<and> c k n m = Some x \<and> e = Foreign x"
  by (auto simp: call_progress_def split: option.splits)

lemma try_entity_Inl:
  "try_entity E mcd ent tr = (tr', Inl e) \<Longrightarrow>
     \<not> is_Exception e \<or> (\<exists>t l err x. print_raises E t l err = Some x \<and> e = Foreign x)"
  by (auto simp: try_entity_def split: prod.splits sum.splits if_splits option.splits)

lemma convert_loop_abort:
  "convert_loop E cb mcd tot ents i tr = (tr', Inl e) \<Longrightarrow>
     \<not> is_Exception e \<or>
     (\<exists>c k m x. cb = Some c \<and> c k tot m = Some x \<and> e = Foreign x) \<or>
     (\<exists>t l err x. print_raises E t l err = Some x \<and> e = Foreign x)"
proof (induction ents arbitrary: i tr)
  case Nil
  then show ?case by (simp add: st_return_def)
next
  case (Cons ent rest)
  let ?msg = "''Converting '' @ es_label ent"
  from Cons.prems have "st_bind (call_progress cb i tot ?msg) (\<lambda>_.
       st_bind (try_entity E mcd ent) (\<lambda>_.
         convert_loop E cb mcd tot rest (Suc i))) tr = (tr', Inl e)"
    by simp
  then consider
      (callback) "call_progress cb i tot ?msg tr = (tr', Inl e)"
    | (body) t1 where "try_entity E mcd ent t1 = (tr', Inl e)"
    | (later) t2 where "convert_loop E cb mcd tot rest (Suc i) t2 = (tr', Inl e)"
    by (auto dest!: st_bind_Inl)
  then show ?case
  proof cases
    case callback
    then show ?thesis by (blast dest: call_progress_Inl)
  next
    case body
    then show ?thesis by (blast dest: try_entity_Inl)
  next
    case later
    then show ?thesis by (rule Cons.IH)
  qed
qed

lemma listing_failure_aborts:
  assumes "h5py_available E"
    and "MCDFile_init E src None = (t1, Inr mcd)"
    and "h5_do E (H5File dst) (tr @ t1) = (t2, Inr ())"
    and "info mcd = ([], Inr meta)"
    and "h5_all E (info_attrs meta) t2 = (t4, Inr ())"
    and "h5_all E [CreateGroup [] ''events'', CreateGroup [] ''analog'',
           CreateGroup [] ''segments'', CreateGroup [] ''neural''] t4 = (t5, Inr ())"
    and "list_entities mcd = (t6, Inl e)"
  shows "convert E cb src dst tr = (t5 @ t6, Inl e)"
  using assms by (simp add: convert_def st_bind_def run_def del: h5_all.simps)

text \<open>
  C7, as the code has it. The handler encloses the read and the writes of one entity.
  When, after the callback of round \<open>i\<close> has returned, that block raises an
  \<open>Exception\<close> and the warning naming the entity is printed, the loop goes on with
  the next entity exactly as if the round had ended normally. The loop as a whole is
  left by an exception in three cases only: an exception that is not an \<open>Exception\<close>,
  one raised by the progress callback, or one raised by printing a warning. And what
  raises before the loop is not handled: when the source and the container are open and
  the attributes and the four groups written, an exception of the listing of the
  entities is the outcome of \<open>convert\<close>.
\<close>

theorem entity_failure_is_contained:
  "(\<forall>t0 t1 e. call_progress cb i tot (''Converting '' @ es_label ent) tr = (t0, Inr ()) \<longrightarrow>
       entity_body E mcd ent t0 = (t1, Inl e) \<longrightarrow> is_Exception e \<longrightarrow>
       print_raises E t1 (safe_label (es_label ent)) e = None \<longrightarrow>
       convert_loop E cb mcd tot (ent # rest) i tr =
         convert_loop E cb mcd tot rest (Suc i)
           (t1 @ [Warning (safe_label (es_label ent)) e])) \<and>
   (\<forall>e. snd (convert_loop E cb mcd tot ents i tr) = Inl e \<longrightarrow>
       \<not> is_Exception e \<or>
       (\<exists>c k m x. cb = Some c \<and> c k tot m = Some x \<and> e = Foreign x) \<or>
       (\<exists>t l err x. print_raises E t l err = Some x \<and> e = Foreign x)) \<and>
   (\<forall>t1 t2 t4 t5 t6 meta e.
       h5py_available E \<longrightarrow>
       MCDFile_init E src None = (t1, Inr mcd) \<longrightarrow>
       h5_do E (H5File dst) (tr @ t1) = (t2, Inr ()) \<longrightarrow>
       info mcd = ([], Inr meta) \<longrightarrow>
       h5_all E (info_attrs meta) t2 = (t4, Inr ()) \<longrightarrow>
       h5_all E [CreateGroup [] ''events'', CreateGroup [] ''analog'',
         CreateGroup [] ''segments'', CreateGroup [] ''neural''] t4 = (t5, Inr ()) \<longrightarrow>
       list_entities mcd = (t6, Inl e) \<longrightarrow>
       convert E cb src dst tr = (t5 @ t6, Inl e))"
proof -
  have step: "convert_loop E cb mcd tot (ent # rest) i tr =
         convert_loop E cb mcd tot rest (Suc i)
           (t1 @ [Warning (safe_label (es_label ent)) e])"
    if "call_progress cb i tot (''Converting '' @ es_label ent) tr = (t0, Inr ())"
      and "entity_body E mcd ent t0 = (t1, Inl e)" and "is_Exception e"
      and "print_raises E t1 (safe_label (es_label ent)) e = None" for t0 t1 e
    using that by (simp add: st_bind_def try_entity_def)
  have abort: "\<not> is_Exception e \<or>
       (\<exists>c k m x. cb = Some c \<and> c k tot m = Some x \<and> e = Foreign x) \<or>
       (\<exists>t l err x. print_raises E t l err = Some x \<and> e = Foreign x)"
    if "snd (convert_loop E cb mcd tot ents i tr) = Inl e" for e
  proof -
    from that obtain tr' where "convert_loop E cb mcd tot ents i tr = (tr', Inl e)"
      by (metis prod.collapse)
    then show ?thesis by (rule convert_loop_abort)
  qed
  from step abort listing_failure_aborts show ?thesis by blast
qed

lemma broken_body:
  "entity_body (sample_env broken_then_sound) (sample_handle broken_then_sound)
     \<lparr>es_id = 0, es_label = ''Bad/1'', es_type = 2, es_type_name = ''analog'',
       es_item_count = 3\<rparr> [] =
   ([GetEntity 0, AnalogGetData 0 0 (- 1)], Inl (Foreign (PyException ''ns_LIBERROR'')))"
  by code_simp

lemma sound_rest:
  "convert_loop (sample_env broken_then_sound) None (sample_handle broken_then_sound) 2
     [\<lparr>es_id = 1, es_label = ''Trig'', es_type = 1, es_type_name = ''event'',
        es_item_count = 2\<rparr>] 1
     [GetEntity 0, AnalogGetData 0 0 (- 1),
      Warning ''Bad_1'' (Foreign (PyException ''ns_LIBERROR''))] =
   ([GetEntity 0, AnalogGetData 0 0 (- 1),
     Warning ''Bad_1'' (Foreign (PyException ''ns_LIBERROR'')),
     GetEntity 1, EventGetData 1 0, EventGetData 1 1,
     H5 (CreateGroup [''events''] ''Trig''),
     H5 (CreateDataset [''events'', ''Trig''] ''timestamps''
           (Floats [PyFloat 0 0, PyFloat 1 0])),
     H5 (CreateDataset [''events'', ''Trig''] ''values'' (Values (NdArray Int64 [PyInt 0, PyInt 1])))],
    Inr ())"
  by code_simp

lemma h5_all_quiet:
  "\<forall>t w. h5_raises E t w = None \<Longrightarrow> h5_all E ws tr = (tr @ map H5 ws, Inr ())"
  by (induction ws arbitrary: tr) (simp_all add: st_return_def st_bind_def h5_do_def)

lemma unlistable_init:
  "MCDFile_init unlistable_env ''rec.mcd'' None =
     ([PathExists ''rec.mcd'',
       PathExists ''/opt/mcd/Matlab-Import-Filter/Matlab_Interface'',
       PathExists ''/home/lab'',
       PathExists ''/opt/mcd/Matlab-Import-Filter/Matlab_Interface/nsMCDLibrary.so'',
       NsFile ''rec.mcd''],
      Inr unlistable_handle)"
  by (simp add: MCDFile_init_def find_library_path_def search_paths_def lib_names_def
      open_file_def open_body_def exists_io_def extern_def io_bind_def io_return_def
      io_raise_def unlistable_env_def sample_env_def unlistable_handle_def)

lemma unlistable_listing:
  "list_entities unlistable_handle =
     ([GetEntity 0, GetEntity 1], Inl (Foreign (PyException ''ns_BADENTITY'')))"
  by (simp add: list_entities_def unlistable_handle_def unlistable_file_def sample_file_def
      two_entities_def upt_rec io_bind_extern)

theorem entity_failure_is_contained_witness:
  "convert_loop (sample_env broken_then_sound) None (sample_handle broken_then_sound) 2
     [\<lparr>es_id = 0, es_label = ''Bad/1'', es_type = 2, es_type_name = ''analog'',
        es_item_count = 3\<rparr>,
      \<lparr>es_id = 1, es_label = ''Trig'', es_type = 1, es_type_name = ''event'',
        es_item_count = 2\<rparr>] 0 [] =
   ([GetEntity 0, AnalogGetData 0 0 (- 1),
     Warning ''Bad_1'' (Foreign (PyException ''ns_LIBERROR'')),
     GetEntity 1, EventGetData 1 0, EventGetData 1 1,
     H5 (CreateGroup [''events''] ''Trig''),
     H5 (CreateDataset [''events'', ''Trig''] ''timestamps''
           (Floats [PyFloat 0 0, PyFloat 1 0])),
     H5 (CreateDataset [''events'', ''Trig''] ''values''
           (Values (NdArray Int64 [PyInt 0, PyInt 1])))],
    Inr ()) \<and>
   convert unlistable_env (Some quiet_callback) ''rec.mcd'' ''out.h5'' [] =
     ([PathExists ''rec.mcd'',
       PathExists ''/opt/mcd/Matlab-Import-Filter/Matlab_Interface'',
       PathExists ''/home/lab'',
       PathExists ''/opt/mcd/Matlab-Import-Filter/Matlab_Interface/nsMCDLibrary.so'',
       NsFile ''rec.mcd'', H5 (H5File ''out.h5''),
       H5 (SetAttr [] ''file_type'' (StrAttr ''MCS'')),
       H5 (SetAttr [] ''entity_count'' (IntAttr 2)),
       H5 (SetAttr [] ''time_stamp_resolution'' (FloatAttr (PyFloat 1 (- 5)))),
       H5 (SetAttr [] ''time_span'' (FloatAttr (PyFloat 1 0))),
       H5 (SetAttr [] ''app_name'' (StrAttr ''MC_Rack'')),
       H5 (SetAttr [] ''comment'' (StrAttr [])),
       H5 (CreateGroup [] ''events''), H5 (CreateGroup [] ''analog''),
       H5 (CreateGroup [] ''segments''), H5 (CreateGroup [] ''neural''),
       GetEntity 0, GetEntity 1],
      Inl (Foreign (PyException ''ns_BADENTITY'')))"
proof -
  let ?E = "sample_env broken_then_sound"
  let ?H = "sample_handle broken_then_sound"
  let ?bad = "\<lparr>es_id = 0, es_label = ''Bad/1'', es_type = 2, es_type_name = ''analog'',
                es_item_count = 3\<rparr>"
  let ?ok = "\<lparr>es_id = 1, es_label = ''Trig'', es_type = 1, es_type_name = ''event'',
               es_item_count = 2\<rparr>"
  let ?x = "Foreign (PyException ''ns_LIBERROR'')"
  have quiet: "call_progress None 0 2 (''Converting '' @ es_label ?bad) [] = ([], Inr ())"
    by (simp add: call_progress_def)
  have caught: "is_Exception ?x"
    by simp
  have printed: "print_raises ?E [GetEntity 0, AnalogGetData 0 0 (- 1)]
      (safe_label (es_label ?bad)) ?x = None"
    by (simp add: sample_env_def)
  have "convert_loop ?E None ?H 2 (?bad # [?ok]) 0 [] =
          convert_loop ?E None ?H 2 [?ok] (Suc 0)
            ([GetEntity 0, AnalogGetData 0 0 (- 1)] @ [Warning (safe_label (es_label ?bad)) ?x])"
    using entity_failure_is_contained
            [where cb = None and i = 0 and tot = 2 and ent = ?bad and tr = "[]"
               and E = ?E and mcd = ?H and rest = "[?ok]"]
          quiet broken_body caught printed
    by blast
  moreover have "safe_label (es_label ?bad) = ''Bad_1''"
    by (simp add: safe_label_def)
  ultimately have loop: "convert_loop ?E None ?H 2 [?bad, ?ok] 0 [] =
     ([GetEntity 0, AnalogGetData 0 0 (- 1),
       Warning ''Bad_1'' (Foreign (PyException ''ns_LIBERROR'')),
       GetEntity 1, EventGetData 1 0, EventGetData 1 1,
       H5 (CreateGroup [''events''] ''Trig''),
       H5 (CreateDataset [''events'', ''Trig''] ''timestamps''
             (Floats [PyFloat 0 0, PyFloat 1 0])),
       H5 (CreateDataset [''events'', ''Trig''] ''values''
             (Values (NdArray Int64 [PyInt 0, PyInt 1])))],
      Inr ())"
    using sound_rest by (simp del: convert_loop.simps)
  let ?U = unlistable_env
  let ?t1 = "[PathExists ''rec.mcd'',
       PathExists ''/opt/mcd/Matlab-Import-Filter/Matlab_Interface'',
       PathExists ''/home/lab'',
       PathExists ''/opt/mcd/Matlab-Import-Filter/Matlab_Interface/nsMCDLibrary.so'',
       NsFile ''rec.mcd'']"
  let ?meta = "\<lparr>fi_file_type = ''MCS'', fi_entity_count = 2,
       fi_time_stamp_resolution = PyFloat 1 (- 5), fi_time_span = PyFloat 1 0,
       fi_app_name = ''MC_Rack'', fi_comment = [],
       fi_date = \<lparr>d_year = 0, d_month = 0, d_day = 0, d_hour = 0, d_minute = 0,
                   d_second = 0\<rparr>\<rparr>"
  have never: "\<forall>t w. h5_raises ?U t w = None"
    by (simp add: unlistable_env_def sample_env_def)
  have avail: "h5py_available ?U"
    by (simp add: unlistable_env_def sample_env_def)
  have created: "h5_do ?U (H5File ''out.h5'') ([] @ ?t1) = (?t1 @ [H5 (H5File ''out.h5'')], Inr ())"
    using never by (simp add: h5_do_def)
  have meta: "info unlistable_handle = ([], Inr ?meta)"
    by (simp add: info_def unlistable_handle_def unlistable_file_def sample_file_def
        two_entities_def io_return_def)
  from entity_failure_is_contained
         [where E = ?U and mcd = unlistable_handle and src = "''rec.mcd''"
            and dst = "''out.h5''" and tr = "[]" and cb = "Some quiet_callback",
          THEN conjunct2, THEN conjunct2, rule_format,
          OF avail unlistable_init created meta
             h5_all_quiet [OF never] h5_all_quiet [OF never] unlistable_listing]
  have listing: "convert ?U (Some quiet_callback) ''rec.mcd'' ''out.h5'' [] =
     ([PathExists ''rec.mcd'',
       PathExists ''/opt/mcd/Matlab-Import-Filter/Matlab_Interface'',
       PathExists ''/home/lab'',
       PathExists ''/opt/mcd/Matlab-Import-Filter/Matlab_Interface/nsMCDLibrary.so'',
       NsFile ''rec.mcd'', H5 (H5File ''out.h5''),
       H5 (SetAttr [] ''file_type'' (StrAttr ''MCS'')),
       H5 (SetAttr [] ''entity_count'' (IntAttr 2)),
       H5 (SetAttr [] ''time_stamp_resolution'' (FloatAttr (PyFloat 1 (- 5)))),
       H5 (SetAttr [] ''time_span'' (FloatAttr (PyFloat 1 0))),
       H5 (SetAttr [] ''app_name'' (StrAttr ''MC_Rack'')),
       H5 (SetAttr [] ''comment'' (StrAttr [])),
       H5 (CreateGroup [] ''events''), H5 (CreateGroup [] ''analog''),
       H5 (CreateGroup [] ''segments''), H5 (CreateGroup [] ''neural''),
       GetEntity 0, GetEntity 1],
      Inl (Foreign (PyException ''ns_BADENTITY'')))"
    by (simp add: info_attrs_def)
  from loop listing show ?thesis by (simp only: simp_thms)
qed

text \<open>
  C7 as stated fails before the loop is reached: the entities are listed outside the
  handler, so an entity that the binding cannot fetch ends the whole conversion with the
  binding's exception, although the source and the container were opened. No entity is
  converted and no warning is printed.
\<close>

theorem entity_failure_counterexample:
  "convert unlistable_env None ''rec.mcd'' ''out.h5'' [] =
     ([PathExists ''rec.mcd'',
       PathExists ''/opt/mcd/Matlab-Import-Filter/Matlab_Interface'',
       PathExists ''/home/lab'',
       PathExists ''/opt/mcd/Matlab-Import-Filter/Matlab_Interface/nsMCDLibrary.so'',
       NsFile ''rec.mcd'', H5 (H5File ''out.h5''),
       H5 (SetAttr [] ''file_type'' (StrAttr ''MCS'')),
       H5 (SetAttr [] ''entity_count'' (IntAttr 2)),
       H5 (SetAttr [] ''time_stamp_resolution'' (FloatAttr (PyFloat 1 (- 5)))),
       H5 (SetAttr [] ''time_span'' (FloatAttr (PyFloat 1 0))),
       H5 (SetAttr [] ''app_name'' (StrAttr ''MC_Rack'')),
       H5 (SetAttr [] ''comment'' (StrAttr [])),
       H5 (CreateGroup [] ''events''), H5 (CreateGroup [] ''analog''),
       H5 (CreateGroup [] ''segments''), H5 (CreateGroup [] ''neural''),
       GetEntity 0, GetEntity 1],
      Inl (Foreign (PyException ''ns_BADENTITY'')))"
  by code_simp

section \<open>The calls of each part of a conversion\<close>

lemma no_read_simps [simp]:
  "no_read (PathExists p)" "no_read (SetEnvPath p)" "no_read (NsLibrary a b)"
  "no_read (NsFile p)" "no_read (GetEntity i)" "no_read (H5 w)" "no_read (Warning l e)"
  by (simp_all add: no_read_def)

lemma of_entity_simps [simp]:
  "of_entity i (GetEntity j)" "of_entity i (AnalogGetData i s c)"
  "of_entity i (EventGetData i k)" "of_entity i (SegmentGetData i k)"
  "of_entity i (NeuralGetData i s c)" "of_entity i (H5 w)" "of_entity i (Warning l e)"
  by (simp_all add: of_entity_def)

lemma all_io_bind:
  assumes "list_all P (fst m)" and "\<And>x. list_all P (fst (f x))"
  shows "list_all P (fst (io_bind m f))"
proof (cases m)
  case (Pair t r)
  show ?thesis
  proof (cases r)
    case (Inl e)
    with Pair assms(1) show ?thesis by (simp add: io_bind_simps)
  next
    case (Inr x)
    with Pair assms(1) assms(2) [of x] show ?thesis by (simp add: io_bind_simps)
  qed
qed

lemma all_extern: "P ev \<Longrightarrow> list_all P (fst (extern ev r))"
  by (simp add: extern_def)

lemma all_exists_io: "P (PathExists p) \<Longrightarrow> list_all P (fst (exists_io E p))"
  by (simp add: exists_io_def)

lemma find_in_dir_no_read: "list_all no_read (fst (find_in_dir E d names))"
proof (induction names)
  case Nil
  then show ?case by (simp add: io_return_def)
next
  case (Cons n names)
  show ?case
    unfolding find_in_dir.simps
    by (rule all_io_bind) (simp_all add: all_exists_io io_return_def Cons.IH)
qed

lemma find_in_paths_no_read: "list_all no_read (fst (find_in_paths E ds names))"
proof (induction ds)
  case Nil
  then show ?case by (simp add: io_return_def)
next
  case (Cons d ds)
  have inner: "list_all no_read
      (fst (io_bind (find_in_dir E d names) (\<lambda>r.
         case r of Some f \<Rightarrow> io_return (Some f) | None \<Rightarrow> find_in_paths E ds names)))"
    by (rule all_io_bind)
       (simp_all add: find_in_dir_no_read io_return_def Cons.IH split: option.splits)
  show ?case
    unfolding find_in_paths.simps
    by (rule all_io_bind) (simp_all add: all_exists_io Cons.IH inner)
qed

lemma find_library_path_no_read: "list_all no_read (fst (find_library_path E lp))"
  unfolding find_library_path_def
proof (rule all_io_bind)
  show "list_all no_read
      (fst (case lp of
              None \<Rightarrow> io_return None
            | Some p \<Rightarrow> if p = [] then io_return None
                        else io_bind (exists_io E p) (\<lambda>ok.
                               io_return (if ok then Some p else None))))"
    by (auto simp: io_return_def split: option.splits
        intro!: all_io_bind all_exists_io)
next
  fix given
  show "list_all no_read
      (fst (case given of
              Some p \<Rightarrow> io_return p
            | None \<Rightarrow>
                io_bind (find_in_paths E (search_paths E) (lib_names (platform E))) (\<lambda>r.
                  case r of
                    Some f \<Rightarrow> io_return f
                  | None \<Rightarrow>
                      (case (search_paths E, lib_names (platform E)) of
                         (d # _, n # _) \<Rightarrow> io_return (path_join E d n)
                       | _ \<Rightarrow> io_return []))))"
    by (auto simp: io_return_def find_in_paths_no_read split: option.splits list.splits
        intro!: all_io_bind)
qed

lemma open_body_no_read: "list_all no_read (fst (open_body E fname lp))"
  unfolding open_body_def
  by (auto simp: io_return_def split: option.splits
      intro!: all_io_bind all_exists_io all_extern)

lemma open_file_no_read: "list_all no_read (fst (open_file E fname lp))"
  using open_body_no_read [of E fname lp]
  by (auto simp: open_file_def split: prod.splits sum.splits)

lemma MCDFile_init_no_read: "list_all no_read (fst (MCDFile_init E fname lp))"
  unfolding MCDFile_init_def
  by (auto simp: io_return_def io_raise_def find_library_path_no_read
      open_file_no_read split: prod.splits
      intro!: all_io_bind all_exists_io)

lemma open_body_file:
  "open_body E fname lp = (t, Inr (l, f)) \<Longrightarrow> ns_File E fname = Inr f"
  by (auto simp: open_body_def io_bind_def io_return_def extern_def exists_io_def
      split: if_splits option.splits sum.splits prod.splits)

lemma MCDFile_init_file:
  assumes "MCDFile_init E fname lp = (t, Inr mcd)"
  shows "\<exists>f. ns_File E fname = Inr f \<and> file_obj mcd = Some f"
proof -
  from assms obtain p l f t3 where
    "open_file E fname p = (t3, Inr (l, f))" and "file_obj mcd = Some f"
    by (auto simp: MCDFile_init_def io_raise_def io_return_def
        dest!: io_bind_Inr split: if_splits)
  moreover from this(1) obtain t4 where "open_body E fname p = (t4, Inr (l, f))"
    by (auto simp: open_file_def split: prod.splits sum.splits)
  ultimately show ?thesis by (auto dest: open_body_file)
qed

lemma list_entities_loop_no_read: "list_all no_read (fst (list_entities_loop f ids acc))"
proof (induction ids arbitrary: acc)
  case Nil
  then show ?case by (simp add: io_return_def)
next
  case (Cons i ids)
  show ?case
    unfolding list_entities_loop.simps
    by (rule all_io_bind) (simp_all add: all_extern Cons.IH)
qed

lemma list_entities_no_read: "list_all no_read (fst (list_entities h))"
  by (simp add: list_entities_def io_raise_def list_entities_loop_no_read
      split: option.splits)

lemma list_entities_loop_entries:
  "list_entities_loop f ids acc = (t, Inr es) \<Longrightarrow>
     \<exists>es'. es = acc @ es' \<and> length es' = length ids \<and>
       (\<forall>k<length ids. \<exists>e. get_entity f (int (ids ! k)) = Inr e \<and>
          es' ! k = summary (ids ! k) e)"
proof (induction ids arbitrary: acc t)
  case Nil
  then show ?case by (simp add: io_return_def)
next
  case (Cons i rest)
  from Cons.prems obtain e t2 where
    got: "get_entity f (int i) = Inr e" and
    step: "list_entities_loop f rest (acc @ [summary i e]) = (t2, Inr es)"
    by (auto simp: extern_def dest!: io_bind_Inr split: sum.splits)
  from Cons.IH [OF step] obtain es' where
    es: "es = (acc @ [summary i e]) @ es'" and len: "length es' = length rest" and
    nth: "\<forall>k<length rest. \<exists>e. get_entity f (int (rest ! k)) = Inr e \<and>
            es' ! k = summary (rest ! k) e"
    by blast
  have "\<exists>e'. get_entity f (int ((i # rest) ! k)) = Inr e' \<and>
          (summary i e # es') ! k = summary ((i # rest) ! k) e'"
    if "k < length (i # rest)" for k
    using that got nth by (cases k) auto
  with es len show ?case by (intro exI [of _ "summary i e # es'"]) simp
qed

lemma list_entities_entries:
  assumes "list_entities h = (t, Inr es)" and "file_obj h = Some f"
  shows "length es = entity_count f \<and>
         (\<forall>k<entity_count f. \<exists>e. get_entity f (int k) = Inr e \<and> es ! k = summary k e)"
proof -
  from assms have "list_entities_loop f [0..<entity_count f] [] = (t, Inr es)"
    by (simp add: list_entities_def)
  from list_entities_loop_entries [OF this] show ?thesis by auto
qed

lemma event_loop_of_entity: "list_all (of_entity i) (fst (event_loop i e ks T V))"
proof (induction ks arbitrary: T V)
  case Nil
  then show ?case by (simp add: io_return_def)
next
  case (Cons k ks)
  show ?case
    unfolding event_loop.simps
    by (rule all_io_bind) (simp_all add: all_extern Cons.IH split: prod.splits)
qed

lemma get_event_data_of_entity: "list_all (of_entity i) (fst (get_event_data E h i))"
  unfolding get_event_data_def
  by (auto simp: io_return_def io_raise_def event_loop_of_entity
      split: option.splits prod.splits intro!: all_io_bind all_extern)

lemma get_analog_data_of_entity: "list_all (of_entity i) (fst (get_analog_data h i s c))"
  unfolding get_analog_data_def
  by (auto simp: io_return_def io_raise_def 
      split: option.splits prod.splits intro!: all_io_bind all_extern)

lemma get_neural_data_of_entity: "list_all (of_entity i) (fst (get_neural_data h i s c))"
  unfolding get_neural_data_def
  by (auto simp: io_return_def io_raise_def 
      split: option.splits prod.splits intro!: all_io_bind all_extern)

lemma get_segment_data_of_entity: "list_all (of_entity i) (fst (get_segment_data h i k))"
  unfolding get_segment_data_def
  by (auto simp: io_return_def io_raise_def 
      split: option.splits prod.splits intro!: all_io_bind all_extern)

lemma segments_loop_of_entity: "list_all (of_entity i) (fst (segments_loop h i ks acc))"
proof (induction ks arbitrary: acc)
  case Nil
  then show ?case by (simp add: io_return_def)
next
  case (Cons k ks)
  show ?case
    unfolding segments_loop.simps
    by (rule all_io_bind) (simp_all add: get_segment_data_of_entity Cons.IH)
qed

lemma get_all_segments_of_entity: "list_all (of_entity i) (fst (get_all_segments h i))"
  unfolding get_all_segments_def
  by (auto simp: io_return_def io_raise_def segments_loop_of_entity
      split: option.splits intro!: all_io_bind all_extern)

lemma emitsD:
  "emits P m \<Longrightarrow> m tr = (tr', r) \<Longrightarrow> \<exists>s. tr' = tr @ s \<and> list_all P s"
  unfolding emits_def by (metis fst_conv)

lemma emits_return: "emits P (st_return x)"
  by (simp add: emits_def st_return_def)

lemma emits_bind:
  assumes "emits P m" and "\<And>x. emits P (f x)"
  shows "emits P (st_bind m f)"
  unfolding emits_def
proof
  fix tr
  obtain t1 r where m: "m tr = (t1, r)" by (cases "m tr")
  from emitsD [OF assms(1) m] obtain s1 where s1: "t1 = tr @ s1" "list_all P s1" by blast
  show "\<exists>s. fst (st_bind m f tr) = tr @ s \<and> list_all P s"
  proof (cases r)
    case (Inl e)
    with m s1 show ?thesis by (simp add: st_bind_def)
  next
    case (Inr x)
    obtain t2 r2 where f: "f x t1 = (t2, r2)" by (cases "f x t1")
    from emitsD [OF assms(2) f] obtain s2 where "t2 = t1 @ s2" "list_all P s2" by blast
    with m s1 Inr f show ?thesis by (simp add: st_bind_def)
  qed
qed

lemma emits_run: "list_all P (fst m) \<Longrightarrow> emits P (run m)"
  by (simp add: emits_def run_def)

lemma emits_h5_do: "P (H5 w) \<Longrightarrow> emits P (h5_do E w)"
  by (simp add: emits_def h5_do_def split: option.splits)

lemma emits_h5_all: "(\<And>w. P (H5 w)) \<Longrightarrow> emits P (h5_all E ws)"
  by (induction ws) (simp_all add: emits_return emits_bind emits_h5_do)

lemma emits_write_segments:
  "(\<And>w. P (H5 w)) \<Longrightarrow> emits P (write_segments E lbl segs k)"
proof (induction segs arbitrary: k)
  case Nil
  then show ?case by (simp add: emits_return)
next
  case (Cons seg segs)
  show ?case
    unfolding write_segments.simps
    by (intro emits_bind emits_h5_all Cons.prems Cons.IH)
qed


lemma emits_entity_body: "emits (of_entity (es_id ent)) (entity_body E mcd ent)"
  unfolding entity_body_def
  by (auto simp: get_event_data_of_entity get_analog_data_of_entity
      get_all_segments_of_entity get_neural_data_of_entity
      split: event_values.splits
      intro!: emits_bind emits_run emits_h5_all emits_h5_do emits_write_segments emits_return)

lemma try_entity_emits:
  assumes "try_entity E mcd ent tr = (tr', r)"
  shows "\<exists>s. tr' = tr @ s \<and> list_all (of_entity (es_id ent)) s"
proof -
  obtain t1 r1 where body: "entity_body E mcd ent tr = (t1, r1)"
    by (cases "entity_body E mcd ent tr")
  from emitsD [OF emits_entity_body body] obtain s where
    s: "t1 = tr @ s" "list_all (of_entity (es_id ent)) s" by blast
  from assms body have "tr' = t1 \<or> (\<exists>e. tr' = t1 @ [Warning (safe_label (es_label ent)) e])"
    by (auto simp: try_entity_def split: sum.splits if_splits option.splits)
  with s show ?thesis by auto
qed

lemma convert_loop_rounds:
  "convert_loop E (Some c) mcd n ents i tr = (tr', Inr ()) \<Longrightarrow>
     \<exists>segs. length segs = length ents \<and>
       tr' = tr @ rounds i n (map (\<lambda>ent. ''Converting '' @ es_label ent) ents) segs \<and>
       (\<forall>k<length ents. list_all (of_entity (es_id (ents ! k))) (segs ! k))"
proof (induction ents arbitrary: i tr)
  case Nil
  then show ?case by (simp add: st_return_def)
next
  case (Cons ent rest)
  let ?msg = "''Converting '' @ es_label ent"
  from Cons.prems obtain t1 t2 where
    cb: "call_progress (Some c) i n ?msg tr = (t1, Inr ())" and
    body: "try_entity E mcd ent t1 = (t2, Inr ())" and
    later: "convert_loop E (Some c) mcd n rest (Suc i) t2 = (tr', Inr ())"
    by (auto dest!: st_bind_Inr)
  from cb have t1: "t1 = tr @ [Progress i n ?msg]"
    by (auto simp: call_progress_def split: option.splits)
  from try_entity_emits [OF body] obtain s where
    s: "t2 = t1 @ s" "list_all (of_entity (es_id ent)) s" by blast
  from Cons.IH [OF later] obtain segs where
    segs: "length segs = length rest"
      "tr' = t2 @ rounds (Suc i) n (map (\<lambda>ent. ''Converting '' @ es_label ent) rest) segs"
      "\<forall>k<length rest. list_all (of_entity (es_id (rest ! k))) (segs ! k)"
    by blast
  have "list_all (of_entity (es_id ((ent # rest) ! k))) ((s # segs) ! k)"
    if "k < length (ent # rest)" for k
    using that s(2) segs(3) by (cases k) auto
  with t1 s(1) segs(1,2) show ?case
    by (intro exI [of _ "s # segs"]) simp
qed

lemma rounds_progress_count:
  "length ms = length ss \<Longrightarrow> \<forall>s\<in>set ss. list_all (\<lambda>ev. \<not> is_progress ev) s \<Longrightarrow>
     length (filter is_progress (rounds k n ms ss)) = length ms"
proof (induction k n ms ss rule: rounds.induct)
  case (1 k n m ms s ss)
  then have "filter is_progress s = []"
    by (simp add: list_all_iff)
  with 1 show ?case by simp
qed simp_all

text \<open>
  C8, as the code has it. When \<open>convert\<close> is given a callback and returns, the calls
  it has made are those of the preparation, with no callback among them; then one round
  per entity of the file, \<open>N\<close> rounds in all, round \<open>k\<close> opening with the callback
  \<open>(k, N, "Converting " + label)\<close> and containing every data read of entity \<open>k\<close>
  and no other callback; and last the callback
  \<open>(N, N, "Conversion complete")\<close>. The callback is thus called exactly \<open>N + 1\<close>
  times.
\<close>

theorem progress_once_per_entity_then_completion:
  assumes returned: "convert E (Some c) src dst tr = (final, Inr ())"
    and source: "ns_File E src = Inr f"
  shows "\<exists>prep msgs segs.
           final = tr @ prep @ rounds 0 (entity_count f) msgs segs @
                     [Progress (entity_count f) (entity_count f) ''Conversion complete''] \<and>
           length msgs = entity_count f \<and> length segs = entity_count f \<and>
           list_all no_read prep \<and>
           (\<forall>k<entity_count f.
              list_all (of_entity (int k)) (segs ! k) \<and>
              (\<exists>e. get_entity f (int k) = Inr e \<and> msgs ! k = ''Converting '' @ label e)) \<and>
           length (filter is_progress (drop (length tr) final)) = Suc (entity_count f)"
proof -
  let ?N = "entity_count f"
  from returned have avail: "h5py_available E"
    by (auto simp: convert_def split: if_splits)
  with returned obtain t1 mcd t2 t3 meta t4 t5 t6 ents t7 where
    init: "run (MCDFile_init E src None) tr = (t1, Inr mcd)" and
    create: "h5_do E (H5File dst) t1 = (t2, Inr ())" and
    meta: "run (info mcd) t2 = (t3, Inr meta)" and
    attrs: "h5_all E (info_attrs meta) t3 = (t4, Inr ())" and
    groups: "h5_all E [CreateGroup [] ''events'', CreateGroup [] ''analog'',
               CreateGroup [] ''segments'', CreateGroup [] ''neural''] t4 = (t5, Inr ())" and
    listing: "run (list_entities mcd) t5 = (t6, Inr ents)" and
    loop: "convert_loop E (Some c) mcd (length ents) ents 0 t6 = (t7, Inr ())" and
    last: "call_progress (Some c) (length ents) (length ents) ''Conversion complete'' t7 =
             (final, Inr ())"
    unfolding convert_def by (auto dest!: st_bind_Inr simp del: h5_all.simps)
  from init have init': "MCDFile_init E src None = (fst (MCDFile_init E src None), Inr mcd)"
    by (simp add: run_def prod_eq_iff)
  from MCDFile_init_file [OF init'] source have opened: "file_obj mcd = Some f"
    by auto
  from listing have listing': "list_entities mcd = (fst (list_entities mcd), Inr ents)"
    by (simp add: run_def prod_eq_iff)
  from list_entities_entries [OF listing' opened] have
    len: "length ents = ?N" and
    entries: "\<forall>k<?N. \<exists>e. get_entity f (int k) = Inr e \<and> ents ! k = summary k e"
    by blast+
  from emitsD [OF emits_run [OF MCDFile_init_no_read] init]
  obtain s1 where s1: "t1 = tr @ s1" "list_all no_read s1" by blast
  from emitsD [OF emits_h5_do create, of no_read]
  obtain s2 where s2: "t2 = t1 @ s2" "list_all no_read s2" by auto
  from meta have s3: "t3 = t2"
    by (auto simp: run_def info_def io_raise_def io_return_def split: option.splits)
  from emitsD [OF emits_h5_all attrs, of no_read]
  obtain s4 where s4: "t4 = t3 @ s4" "list_all no_read s4" by auto
  from emitsD [OF emits_h5_all groups, of no_read]
  obtain s5 where s5: "t5 = t4 @ s5" "list_all no_read s5" by auto
  from emitsD [OF emits_run [OF list_entities_no_read] listing]
  obtain s6 where s6: "t6 = t5 @ s6" "list_all no_read s6" by blast
  let ?prep = "s1 @ s2 @ s4 @ s5 @ s6"
  let ?msgs = "map (\<lambda>ent. ''Converting '' @ es_label ent) ents"
  have t6: "t6 = tr @ ?prep" and quiet: "list_all no_read ?prep"
    using s1 s2 s3 s4 s5 s6 by simp_all
  from convert_loop_rounds [OF loop] obtain segs where
    segs: "length segs = length ents"
      "t7 = t6 @ rounds 0 (length ents) ?msgs segs"
      "\<forall>k<length ents. list_all (of_entity (es_id (ents ! k))) (segs ! k)"
    by blast
  from last have final: "final = t7 @ [Progress ?N ?N ''Conversion complete'']"
    by (auto simp: call_progress_def len split: option.splits)
  have shape: "final = tr @ ?prep @ rounds 0 ?N ?msgs segs @
                 [Progress ?N ?N ''Conversion complete'']"
    using final segs(2) t6 len by simp
  have per_entity: "list_all (of_entity (int k)) (segs ! k) \<and>
      (\<exists>e. get_entity f (int k) = Inr e \<and> ?msgs ! k = ''Converting '' @ label e)"
    if "k < ?N" for k
  proof -
    from entries that obtain e where
      e: "get_entity f (int k) = Inr e" "ents ! k = summary k e" by blast
    from segs(3) that len have "list_all (of_entity (es_id (ents ! k))) (segs ! k)" by simp
    with e that len show ?thesis by (auto simp: summary_def)
  qed
  have no_progress: "\<forall>s\<in>set segs. list_all (\<lambda>ev. \<not> is_progress ev) s"
  proof
    fix s assume "s \<in> set segs"
    then obtain k where "k < length segs" "s = segs ! k"
      by (auto simp: in_set_conv_nth)
    with segs(1,3) have "list_all (of_entity (es_id (ents ! k))) s" by simp
    then show "list_all (\<lambda>ev. \<not> is_progress ev) s"
      by (simp add: list_all_iff of_entity_def)
  qed
  have "filter is_progress ?prep = []"
    using quiet by (auto simp: list_all_iff no_read_def filter_empty_conv)
  moreover have "length (filter is_progress (rounds 0 ?N ?msgs segs)) = ?N"
    using rounds_progress_count [of ?msgs segs 0 ?N] segs(1) no_progress len by simp
  ultimately have count: "length (filter is_progress (drop (length tr) final)) = Suc ?N"
    unfolding shape by simp
  from shape len segs(1) quiet per_entity count show ?thesis
    by (intro exI [of _ ?prep] exI [of _ ?msgs] exI [of _ segs]) simp
qed

lemma convert_two_entities:
  "convert (sample_env two_entities) (Some quiet_callback) ''rec.mcd'' ''out.h5'' [] =
     ([PathExists ''rec.mcd'',
       PathExists ''/opt/mcd/Matlab-Import-Filter/Matlab_Interface'',
       PathExists ''/home/lab'',
       PathExists ''/opt/mcd/Matlab-Import-Filter/Matlab_Interface/nsMCDLibrary.so'',
       NsFile ''rec.mcd'', H5 (H5File ''out.h5''),
       H5 (SetAttr [] ''file_type'' (StrAttr ''MCS'')),
       H5 (SetAttr [] ''entity_count'' (IntAttr 2)),
       H5 (SetAttr [] ''time_stamp_resolution'' (FloatAttr (PyFloat 1 (- 5)))),
       H5 (SetAttr [] ''time_span'' (FloatAttr (PyFloat 1 0))),
       H5 (SetAttr [] ''app_name'' (StrAttr ''MC_Rack'')),
       H5 (SetAttr [] ''comment'' (StrAttr [])),
       H5 (CreateGroup [] ''events''), H5 (CreateGroup [] ''analog''),
       H5 (CreateGroup [] ''segments''), H5 (CreateGroup [] ''neural''),
       GetEntity 0, GetEntity 1,
       Progress 0 2 ''Converting Ch1'',
       GetEntity 0, AnalogGetData 0 0 (- 1),
       H5 (CreateGroup [''analog''] ''Ch1''),
       H5 (CreateDataset [''analog'', ''Ch1''] ''data'' (Floats [PyFloat 7 0])),
       H5 (CreateDataset [''analog'', ''Ch1''] ''timestamps'' (Floats [PyFloat 0 0])),
       H5 (SetAttr [''analog'', ''Ch1''] ''sample_rate'' (FloatAttr (PyFloat 1000 0))),
       H5 (SetAttr [''analog'', ''Ch1''] ''units'' (StrAttr ''V'')),
       Progress 1 2 ''Converting Trig'',
       GetEntity 1, EventGetData 1 0, EventGetData 1 1, EventGetData 1 2,
       EventGetData 1 3, EventGetData 1 4,
       H5 (CreateGroup [''events''] ''Trig''),
       H5 (CreateDataset [''events'', ''Trig''] ''timestamps''
             (Floats [PyFloat 0 0, PyFloat 1 0, PyFloat 2 0, PyFloat 3 0, PyFloat 4 0])),
       H5 (CreateDataset [''events'', ''Trig''] ''values''
             (Values (NdArray Int64 [PyInt 0, PyInt 1, PyInt 2, PyInt 3, PyInt 4]))),
       Progress 2 2 ''Conversion complete''],
      Inr ())"
  by code_simp

theorem progress_once_per_entity_then_completion_witness:
  "snd (convert (sample_env two_entities) (Some quiet_callback) ''rec.mcd'' ''out.h5'' []) =
     Inr () \<and>
   (\<exists>prep msgs segs.
      fst (convert (sample_env two_entities) (Some quiet_callback) ''rec.mcd'' ''out.h5'' []) =
        prep @ rounds 0 2 msgs segs @ [Progress 2 2 ''Conversion complete''] \<and>
      length msgs = 2 \<and> length segs = 2 \<and> list_all no_read prep) \<and>
   length (filter is_progress
     (fst (convert (sample_env two_entities) (Some quiet_callback) ''rec.mcd'' ''out.h5'' []))) = 3"
proof -
  have source: "ns_File (sample_env two_entities) ''rec.mcd'' = Inr (sample_file two_entities)"
    by (simp add: sample_env_def)
  have n: "entity_count (sample_file two_entities) = 2"
    by (simp add: sample_file_def two_entities_def)
  from progress_once_per_entity_then_completion [OF convert_two_entities source]
  obtain prep msgs segs where
    "fst (convert (sample_env two_entities) (Some quiet_callback) ''rec.mcd'' ''out.h5'' []) =
       prep @ rounds 0 2 msgs segs @ [Progress 2 2 ''Conversion complete'']"
    "length msgs = 2" "length segs = 2" "list_all no_read prep"
    unfolding n by (auto simp: convert_two_entities)
  then show ?thesis
    by (auto simp: convert_two_entities)
qed

text \<open>
  C8 as stated fails in the last call only: the message of the completion callback is
  \<open>Conversion complete\<close>, not \<open>done\<close>.
\<close>

theorem progress_completion_message_counterexample:
  "snd (convert (sample_env two_entities) (Some quiet_callback) ''rec.mcd'' ''out.h5'' []) =
     Inr () \<and>
   filter is_progress
     (fst (convert (sample_env two_entities) (Some quiet_callback) ''rec.mcd'' ''out.h5'' [])) =
     [Progress 0 2 ''Converting Ch1'', Progress 1 2 ''Converting Trig'',
      Progress 2 2 ''Conversion complete''] \<and>
   Progress 2 2 ''done'' \<notin>
     set (fst (convert (sample_env two_entities) (Some quiet_callback)
                 ''rec.mcd'' ''out.h5'' []))"
  by (simp add: convert_two_entities)

end
